theory Spec2Isabelle
  imports Complex_Main "HOL-Library.Sublist" "HOL-Library.AList"
begin

section \<open>Values of the data pipeline\<close>

subsection \<open>Floating-point numbers\<close>

text \<open>
  A Python/numpy float is modelled by its value: not-a-number, one of the two infinities,
  or a finite rational. Arithmetic on finite values is exact: rounding and the sign of
  zero are not modelled. pandas reads \<open>NaN\<close> as a missing cell.
\<close>

datatype pyfloat = NaN | PInf | NInf | Fin rat

fun isnan :: "pyfloat \<Rightarrow> bool" where
  "isnan NaN = True"
| "isnan _ = False"

text \<open>\<open>x > y\<close>: every comparison with \<open>NaN\<close> is false.\<close>

fun fgt :: "pyfloat \<Rightarrow> pyfloat \<Rightarrow> bool" where
  "fgt NaN _ = False"
| "fgt _ NaN = False"
| "fgt PInf PInf = False"
| "fgt PInf _ = True"
| "fgt NInf _ = False"
| "fgt (Fin a) PInf = False"
| "fgt (Fin a) NInf = True"
| "fgt (Fin a) (Fin b) = (a > b)"

text \<open>\<open>x <= y\<close>\<close>

fun fle :: "pyfloat \<Rightarrow> pyfloat \<Rightarrow> bool" where
  "fle NaN _ = False"
| "fle _ NaN = False"
| "fle NInf _ = True"
| "fle PInf PInf = True"
| "fle PInf _ = False"
| "fle (Fin a) PInf = True"
| "fle (Fin a) NInf = False"
| "fle (Fin a) (Fin b) = (a \<le> b)"

text \<open>\<open>x / y\<close> as numpy computes it: a division by zero gives an infinity or \<open>NaN\<close>.\<close>

fun fdiv :: "pyfloat \<Rightarrow> pyfloat \<Rightarrow> pyfloat" where
  "fdiv NaN _ = NaN"
| "fdiv _ NaN = NaN"
| "fdiv (Fin a) (Fin b) =
     (if b = 0 then (if a = 0 then NaN else if a > 0 then PInf else NInf) else Fin (a / b))"
| "fdiv (Fin a) _ = Fin 0"
| "fdiv PInf (Fin b) = (if b \<ge> 0 then PInf else NInf)"
| "fdiv NInf (Fin b) = (if b \<ge> 0 then NInf else PInf)"
| "fdiv _ _ = NaN"

text \<open>\<open>x - y\<close>\<close>

fun fsub :: "pyfloat \<Rightarrow> pyfloat \<Rightarrow> pyfloat" where
  "fsub NaN _ = NaN"
| "fsub _ NaN = NaN"
| "fsub (Fin a) (Fin b) = Fin (a - b)"
| "fsub (Fin a) PInf = NInf"
| "fsub (Fin a) NInf = PInf"
| "fsub PInf PInf = NaN"
| "fsub PInf _ = PInf"
| "fsub NInf NInf = NaN"
| "fsub NInf _ = NInf"

text \<open>\<open>x * y\<close>\<close>

fun fmul :: "pyfloat \<Rightarrow> pyfloat \<Rightarrow> pyfloat" where
  "fmul NaN _ = NaN"
| "fmul _ NaN = NaN"
| "fmul (Fin a) (Fin b) = Fin (a * b)"
| "fmul (Fin a) PInf = (if a = 0 then NaN else if a > 0 then PInf else NInf)"
| "fmul (Fin a) NInf = (if a = 0 then NaN else if a > 0 then NInf else PInf)"
| "fmul PInf (Fin b) = (if b = 0 then NaN else if b > 0 then PInf else NInf)"
| "fmul NInf (Fin b) = (if b = 0 then NaN else if b > 0 then NInf else PInf)"
| "fmul PInf PInf = PInf"
| "fmul PInf NInf = NInf"
| "fmul NInf PInf = NInf"
| "fmul NInf NInf = PInf"

fun fabs :: "pyfloat \<Rightarrow> pyfloat" where
  "fabs NaN = NaN"
| "fabs PInf = PInf"
| "fabs NInf = PInf"
| "fabs (Fin a) = Fin \<bar>a\<bar>"

text \<open>The value of a Python int as a float.\<close>

definition of_count :: "nat \<Rightarrow> pyfloat" where
  "of_count n = Fin (of_nat n)"

subsection \<open>Tables\<close>

text \<open>
  A pandas \<open>DataFrame\<close> with a datetime index: the column labels and the rows in index
  order, each row a timestamp (seconds) and one cell for every column label. A frame is
  rectangular, so a row is a function from labels to cells; only the cells at the labels
  of \<open>columns\<close> belong to the frame.
\<close>

type_synonym row = "int \<times> (string \<Rightarrow> pyfloat)"

record table =
  columns :: "string list"
  rows :: "row list"

text \<open>\<open>len(data)\<close>\<close>

definition len :: "table \<Rightarrow> nat" where
  "len d = length (rows d)"

text \<open>\<open>data.empty\<close>: some axis has length zero.\<close>

definition df_empty :: "table \<Rightarrow> bool" where
  "df_empty d = (rows d = [] \<or> columns d = [])"

text \<open>\<open>data.isnull().sum().sum()\<close>: the number of missing cells.\<close>

definition isnull_sum :: "table \<Rightarrow> nat" where
  "isnull_sum d = (\<Sum>r\<leftarrow>rows d. length (filter (\<lambda>c. isnan (snd r c)) (columns d)))"

text \<open>\<open>data.dropna()\<close>: the rows without a missing cell.\<close>

definition dropna :: "table \<Rightarrow> table" where
  "dropna d = d\<lparr>rows := filter (\<lambda>r. \<forall>c\<in>set (columns d). \<not> isnan (snd r c)) (rows d)\<rparr>"

text \<open>\<open>data[name]\<close> for a label of the frame, as the series of its values.\<close>

definition series :: "table \<Rightarrow> string \<Rightarrow> pyfloat list" where
  "series d name = map (\<lambda>r. snd r name) (rows d)"

text \<open>\<open>s.dropna()\<close> on a series.\<close>

definition dropna_series :: "pyfloat list \<Rightarrow> pyfloat list" where
  "dropna_series s = filter (\<lambda>x. \<not> isnan x) s"

text \<open>\<open>data.index[-1]\<close> of a frame with at least one row.\<close>

definition latest_date :: "table \<Rightarrow> int" where
  "latest_date d = fst (last (rows d))"

subsection \<open>Exceptions and strings\<close>

text \<open>A raised exception: its class and its message (\<open>str(e)\<close>).\<close>

datatype error =
    Exception string
  | ValueError string
  | KeyError string
  | SourceError string string

fun str_exc :: "error \<Rightarrow> string" where
  "str_exc (Exception m) = m"
| "str_exc (ValueError m) = m"
| "str_exc (KeyError m) = m"
| "str_exc (SourceError cls m) = m"

text \<open>\<open>str(n)\<close> for a non-negative int.\<close>

definition digit :: "nat \<Rightarrow> char" where
  "digit n = ''0123456789'' ! n"

fun str_nat :: "nat \<Rightarrow> string" where
  "str_nat n = (if n < 10 then [digit n] else str_nat (n div 10) @ [digit (n mod 10)])"

declare str_nat.simps [simp del]

text \<open>\<open>sep.join(xs)\<close>\<close>

fun join :: "string \<Rightarrow> string list \<Rightarrow> string" where
  "join sep [] = []"
| "join sep [x] = x"
| "join sep (x # y # xs) = x @ sep @ join sep (y # xs)"

text \<open>The emoji of the messages, as their UTF-8 bytes.\<close>

definition cross_mark :: string where
  "cross_mark = [CHR 0xE2, CHR 0x9D, CHR 0x8C]"

definition check_mark :: string where
  "check_mark = [CHR 0xE2, CHR 0x9C, CHR 0x85]"

definition warning_sign :: string where
  "warning_sign = [CHR 0xE2, CHR 0x9A, CHR 0xA0,
                   CHR 0xEF, CHR 0xB8, CHR 0x8F]"

definition chart :: string where
  "chart = [CHR 0xF0, CHR 0x9F, CHR 0x93, CHR 0x8A]"

definition arrows :: string where
  "arrows = [CHR 0xF0, CHR 0x9F, CHR 0x94, CHR 0x84]"

definition hospital :: string where
  "hospital = [CHR 0xF0, CHR 0x9F, CHR 0x8F, CHR 0xA5]"

section \<open>The world outside the module\<close>

text \<open>
  The pipeline reads the clock, downloads from Yahoo Finance and queries the FRED API.
  Each such call is a request; the world keeps the requests made so far and the lines
  printed so far. The environment answers a request from the history of the requests
  before it, so that a source may fail on one call and succeed on the next.
\<close>

datatype yf_window = StartEnd int int | Period string

datatype request =
    Now
  | YfDownload string yf_window
  | FredGet string string nat

text \<open>
  The \<open>value\<close> of one FRED observation, by what the code does with it: the sentinel
  \<open>'.'\<close>, a text that \<open>float()\<close> parses, a text on which \<open>float()\<close> raises, or an
  observation without the key.
\<close>

datatype fred_value = Dot | FloatText pyfloat | BadText string | NoValueKey

record env =
  clock :: "request list \<Rightarrow> int"
  yf_download :: "request list \<Rightarrow> string \<Rightarrow> yf_window \<Rightarrow> error + table"
  fred_get :: "request list \<Rightarrow> string \<Rightarrow> string \<Rightarrow> nat \<Rightarrow> error + fred_value list"
  float64 :: "rat \<Rightarrow> pyfloat"
  format_float :: "string \<Rightarrow> pyfloat \<Rightarrow> string"
  repr :: "string \<Rightarrow> string"
  isoformat :: "int \<Rightarrow> string"

record world =
  history :: "request list"
  stdout :: "string list"

definition print :: "string \<Rightarrow> world \<Rightarrow> world" where
  "print line w = w\<lparr>stdout := stdout w @ [line]\<rparr>"

text \<open>\<open>datetime.now()\<close>\<close>

definition datetime_now :: "env \<Rightarrow> world \<Rightarrow> int \<times> world" where
  "datetime_now e w = (clock e (history w), w\<lparr>history := history w @ [Now]\<rparr>)"

text \<open>\<open>yf.download(ticker, ...)\<close>\<close>

definition yf_download_call :: "env \<Rightarrow> string \<Rightarrow> yf_window \<Rightarrow> world \<Rightarrow> (error + table) \<times> world" where
  "yf_download_call e ticker win w =
     (yf_download e (history w) ticker win, w\<lparr>history := history w @ [YfDownload ticker win]\<rparr>)"

text \<open>
  \<open>requests.get\<close> on the FRED URL, \<open>raise_for_status\<close>, \<open>json()\<close> and
  \<open>data.get('observations', [])\<close>: the observations, or the exception one of them raised.
\<close>

definition fred_get_call :: "env \<Rightarrow> string \<Rightarrow> string \<Rightarrow> nat \<Rightarrow> world \<Rightarrow> (error + fred_value list) \<times> world" where
  "fred_get_call e series_id key limit w =
     (fred_get e (history w) series_id key limit,
      w\<lparr>history := history w @ [FredGet series_id key limit]\<rparr>)"

subsection \<open>Rounded arithmetic\<close>

text \<open>
  A float64 operation returns the float64 value nearest to its exact result (an infinity
  when the exact result is out of range): \<open>float64 e\<close> is that rounding, given by the
  environment like the other library functions. The day-over-day changes of prices are
  quotients and differences of arbitrary float64 values, so they are rounded, once after
  the division and once after the subtraction. The two threshold tests of the quality
  gate compare numbers made of small counts, for which the rounded and the exact
  comparison agree on every table that fits in memory, and are written exactly.
\<close>

fun rounded :: "env \<Rightarrow> pyfloat \<Rightarrow> pyfloat" where
  "rounded e (Fin a) = float64 e a"
| "rounded e x = x"

text \<open>
  \<open>s.pct_change().dropna()\<close> on a series without missing values: each value over its
  predecessor, minus one; the first entry has no predecessor, is \<open>NaN\<close> and is dropped,
  as is every other change that is \<open>NaN\<close>.
\<close>

fun pct_change :: "env \<Rightarrow> pyfloat list \<Rightarrow> pyfloat list" where
  "pct_change e (p # c # s) =
     rounded e (fsub (rounded e (fdiv c p)) (Fin 1)) # pct_change e (c # s)"
| "pct_change e _ = []"

definition pct_change_dropna :: "env \<Rightarrow> pyfloat list \<Rightarrow> pyfloat list" where
  "pct_change_dropna e s = dropna_series (pct_change e s)"

text \<open>\<open>repr\<close> of a list of strings.\<close>

definition repr_list :: "env \<Rightarrow> string list \<Rightarrow> string" where
  "repr_list e xs = ''['' @ join '', '' (map (repr e) xs) @ '']''"

section \<open>The pipeline\<close>

text \<open>
  The object's configuration: the two constructor arguments. The other attributes set by
  the constructor (\<open>cache\<close>, \<open>cache_duration\<close>, \<open>data_sources\<close>) are never read
  or written by a method.
\<close>

record pipeline =
  fred_api_key :: "string option"
  alpha_vantage_key :: "string option"

text \<open>The truth value of an optional string: \<open>None\<close> and \<open>''\<close> are false.\<close>

fun truthy :: "string option \<Rightarrow> bool" where
  "truthy None = False"
| "truthy (Some s) = (s \<noteq> [])"

subsection \<open>\<open>_validate_data_quality\<close>\<close>

text \<open>The freshness check and the accepting return at the end of the function.\<close>

definition check_freshness :: "env \<Rightarrow> table \<Rightarrow> string \<Rightarrow> world \<Rightarrow> bool \<times> world" where
  "check_freshness e d ticker w =
     (let latest = latest_date d;
          (now, w1) = datetime_now e w;
          days_old = (now - latest) div 86400;
          w2 = (if days_old > 10
                then print (warning_sign @ ''  '' @ ticker @ '': Stale data ('' @
                            str_nat (nat days_old) @ '' days old)'') w1
                else w1)
      in (True, print (check_mark @ '' '' @ ticker @ '': Data quality validated'') w2))"

definition validate_data_quality :: "env \<Rightarrow> table option \<Rightarrow> string \<Rightarrow> world \<Rightarrow> bool \<times> world" where
  "validate_data_quality e data ticker w =
     (case data of
        None \<Rightarrow> (False, print (cross_mark @ '' '' @ ticker @ '': No data'') w)
      | Some d \<Rightarrow>
          if df_empty d then (False, print (cross_mark @ '' '' @ ticker @ '': No data'') w)
          else if len d < 20
          then (False, print (cross_mark @ '' '' @ ticker @ '': Insufficient data points ('' @
                              str_nat (len d) @ '')'') w)
          else
            let missing_pct = fdiv (of_count (isnull_sum d)) (of_count (len d * length (columns d)))
            in if fgt missing_pct (Fin 0.1)
               then (False, print (cross_mark @ '' '' @ ticker @ '': Too many missing values ('' @
                                   format_float e ''.1%'' missing_pct @ '')'') w)
               else if ''Close'' \<in> set (columns d)
               then
                 let closes = dropna_series (series d ''Close'')
                 in if length closes = 0
                    then (False, print (cross_mark @ '' '' @ ticker @ '': No valid closing prices'') w)
                    else if \<exists>c\<in>set closes. fle c (Fin 0)
                    then (False, print (cross_mark @ '' '' @ ticker @
                                        '': Invalid prices (zero or negative)'') w)
                    else
                      let returns = pct_change_dropna e closes;
                          extreme_moves = length (filter (\<lambda>r. fgt (fabs r) (Fin 0.5)) returns)
                      in if fgt (of_count extreme_moves) (fmul (of_count (length returns)) (Fin 0.02))
                         then (False, print (warning_sign @ ''  '' @ ticker @
                                 '': Suspicious data - many extreme price movements'') w)
                         else check_freshness e d ticker w
               else check_freshness e d ticker w)"

text \<open>
  The quantities of the price checks, named for the statements below: the closes the
  check looks at, their day-over-day changes, and the number of extreme ones.
\<close>

definition close_prices :: "table \<Rightarrow> pyfloat list" where
  "close_prices d = dropna_series (series d ''Close'')"

definition close_changes :: "env \<Rightarrow> table \<Rightarrow> pyfloat list" where
  "close_changes e d = pct_change_dropna e (close_prices d)"

definition extreme_moves :: "env \<Rightarrow> table \<Rightarrow> nat" where
  "extreme_moves e d = length (filter (\<lambda>r. fgt (fabs r) (Fin 0.5)) (close_changes e d))"

text \<open>The fraction of missing cells over all cells, for a frame with cells.\<close>

definition missing_fraction :: "table \<Rightarrow> rat" where
  "missing_fraction d = of_nat (isnull_sum d) / of_nat (len d * length (columns d))"

text \<open>The price checks find nothing to reject.\<close>

definition valid_prices :: "env \<Rightarrow> table \<Rightarrow> bool" where
  "valid_prices e d =
     (''Close'' \<in> set (columns d) \<longrightarrow>
        close_prices d \<noteq> [] \<and> (\<forall>c\<in>set (close_prices d). \<not> fle c (Fin 0)) \<and>
        \<not> (of_nat (extreme_moves e d) > (0.02::rat) * of_nat (length (close_changes e d))))"

subsection \<open>\<open>_fetch_from_yfinance\<close>\<close>

definition period_days :: "(string \<times> nat) list" where
  "period_days = [(''1mo'', 30), (''3mo'', 90), (''6mo'', 180),
                  (''1y'', 365), (''2y'', 730), (''5y'', 1825)]"

definition max_retries :: nat where
  "max_retries = 3"

text \<open>The body of the \<open>try\<close> block of one attempt: what it returns, or what it raises.\<close>

definition download_attempt :: "env \<Rightarrow> string \<Rightarrow> int \<Rightarrow> int \<Rightarrow> world \<Rightarrow> (error + table) \<times> world" where
  "download_attempt e ticker start_date end_date w =
     (case yf_download_call e ticker (StartEnd start_date end_date) w of
        (Inl err, w1) \<Rightarrow> (Inl err, w1)
      | (Inr downloaded, w1) \<Rightarrow>
          if df_empty downloaded
          then (Inl (ValueError (''No data returned for '' @ ticker)), w1)
          else
            let stock_data = dropna downloaded
            in if len stock_data < 20
               then (Inl (ValueError (''Insufficient data points for '' @ ticker @ '': '' @
                                      str_nat (len stock_data))), w1)
               else
                 let latest = latest_date stock_data;
                     (now, w2) = datetime_now e w1;
                     days_old = (now - latest) div 86400;
                     w3 = (if days_old > 7
                           then print (warning_sign @ ''  Warning: '' @ ticker @ '' data is '' @
                                       str_nat (nat days_old) @ '' days old'') w2
                           else w2)
                 in (Inr stock_data, w3))"

text \<open>
  The loop \<open>for attempt in range(max_retries)\<close>, entered with \<open>attempt = 0\<close>. Every
  iteration returns, raises (on the last attempt) or continues with the next attempt, so
  the loop never runs out of attempts without a result.
\<close>

function fetch_attempts :: "env \<Rightarrow> string \<Rightarrow> int \<Rightarrow> int \<Rightarrow> nat \<Rightarrow> world \<Rightarrow> (error + table) \<times> world" where
  "fetch_attempts e ticker start_date end_date attempt w =
     (case download_attempt e ticker start_date end_date w of
        (Inr stock_data, w1) \<Rightarrow> (Inr stock_data, w1)
      | (Inl err, w1) \<Rightarrow>
          if attempt < max_retries - 1
          then fetch_attempts e ticker start_date end_date (attempt + 1)
                 (print (warning_sign @ ''  Retry '' @ str_nat (attempt + 1) @ '' for '' @ ticker @
                         '': '' @ str_exc err) w1)
          else (Inl err, w1))"
  by pat_completeness auto
termination
  by (relation "measure (\<lambda>(e, ticker, start_date, end_date, attempt, w). max_retries - 1 - attempt)")
     (auto simp: max_retries_def)

declare fetch_attempts.simps [simp del]

definition fetch_from_yfinance :: "env \<Rightarrow> string \<Rightarrow> string \<Rightarrow> world \<Rightarrow> (error + table) \<times> world" where
  "fetch_from_yfinance e ticker period w =
     (let (end_date, w1) = datetime_now e w;
          days = (case map_of period_days period of Some n \<Rightarrow> n | None \<Rightarrow> 365);
          start_date = end_date - 86400 * int days
      in fetch_attempts e ticker start_date end_date 0 w1)"

subsection \<open>\<open>fetch_real_time_stock_data\<close>\<close>

text \<open>The \<open>tickers\<close> argument: one string, or a list of strings.\<close>

datatype tickers_arg = Single string | Many "string list"

fun as_list :: "tickers_arg \<Rightarrow> string list" where
  "as_list (Single s) = [s]"
| "as_list (Many xs) = xs"

text \<open>
  The state of the loop over the tickers: the dictionary \<open>all_data\<close> (in insertion
  order), the list \<open>failed_tickers\<close> and the world.
\<close>

type_synonym fetch_state = "(string \<times> table) list \<times> string list \<times> world"

text \<open>One iteration: the \<open>try\<close> block for one ticker and its \<open>except\<close> clause.\<close>

definition fetch_ticker :: "env \<Rightarrow> string \<Rightarrow> bool \<Rightarrow> string \<Rightarrow> fetch_state \<Rightarrow> fetch_state" where
  "fetch_ticker e period validate ticker st =
     (case st of (all_data, failed_tickers, w) \<Rightarrow>
        (case fetch_from_yfinance e ticker period w of
           (Inl err, w1) \<Rightarrow>
             (all_data, failed_tickers @ [ticker],
              print (cross_mark @ '' Failed to fetch '' @ ticker @ '': '' @ str_exc err) w1)
         | (Inr data, w1) \<Rightarrow>
             let (ok, w2) = (if validate then validate_data_quality e (Some data) ticker w1
                             else (True, w1))
             in if \<not> ok
                then (all_data, failed_tickers @ [ticker],
                      print (cross_mark @ '' Failed to fetch '' @ ticker @ '': '' @
                             str_exc (ValueError (''Data quality validation failed for '' @ ticker))) w2)
                else (AList.update ticker data all_data, failed_tickers,
                      print (check_mark @ '' Successfully fetched '' @ ticker @ '': '' @
                             str_nat (len data) @ '' observations'') w2)))"

fun fetch_loop :: "env \<Rightarrow> string \<Rightarrow> bool \<Rightarrow> string list \<Rightarrow> fetch_state \<Rightarrow> fetch_state" where
  "fetch_loop e period validate [] st = st"
| "fetch_loop e period validate (ticker # tickers) st =
     fetch_loop e period validate tickers (fetch_ticker e period validate ticker st)"

definition fetch_real_time_stock_data ::
    "env \<Rightarrow> tickers_arg \<Rightarrow> string \<Rightarrow> bool \<Rightarrow> world \<Rightarrow> (error + (string \<times> table) list) \<times> world" where
  "fetch_real_time_stock_data e tickers_in period validate w =
     (let tickers = as_list tickers_in;
          w0 = print (chart @ '' Fetching real-time data for: '' @ join '', '' tickers) w;
          (all_data, failed_tickers, w1) = fetch_loop e period validate tickers ([], [], w0)
      in if all_data = []
         then (Inl (Exception (cross_mark @ '' CRITICAL: No data could be fetched for any ticker'')), w1)
         else
           let w2 = (if failed_tickers \<noteq> []
                     then print (warning_sign @ ''  Warning: Failed to fetch '' @
                                 str_nat (length failed_tickers) @ '' tickers: '' @
                                 repr_list e failed_tickers) w1
                     else w1)
           in (Inr all_data, w2))"

subsection \<open>\<open>_fetch_from_fred\<close>\<close>

text \<open>The loop over the observations: the first value that is not the sentinel.\<close>

fun first_valid_observation :: "env \<Rightarrow> fred_value list \<Rightarrow> error + pyfloat option" where
  "first_valid_observation e [] = Inr None"
| "first_valid_observation e (NoValueKey # obs) = Inl (KeyError (repr e ''value''))"
| "first_valid_observation e (Dot # obs) = first_valid_observation e obs"
| "first_valid_observation e (FloatText x # obs) = Inr (Some x)"
| "first_valid_observation e (BadText s # obs) =
     Inl (ValueError (''could not convert string to float: '' @ repr e s))"

definition fetch_from_fred ::
    "env \<Rightarrow> pipeline \<Rightarrow> string \<Rightarrow> nat \<Rightarrow> world \<Rightarrow> (error + pyfloat option) \<times> world" where
  "fetch_from_fred e self series_id limit w =
     (case fred_api_key self of
        None \<Rightarrow> (Inl (ValueError ''FRED API key required''), w)
      | Some key \<Rightarrow>
          if key = [] then (Inl (ValueError ''FRED API key required''), w)
          else (case fred_get_call e series_id key limit w of
                  (Inl err, w1) \<Rightarrow> (Inl err, w1)
                | (Inr observations, w1) \<Rightarrow> (first_valid_observation e observations, w1)))"

subsection \<open>\<open>get_real_time_risk_free_rate\<close>\<close>

text \<open>
  Each of the three methods is a \<open>try\<close> block that returns the rate from inside, or is
  left (normally or through its \<open>except\<close> clause) for the next method: \<open>Some\<close> is the
  value returned, \<open>None\<close> means the function goes on.
\<close>

text \<open>Methods 1 and 3: a FRED series; \<open>label\<close> is \<open>FRED\<close> or \<open>FRED 1M\<close>.\<close>

definition fred_method ::
    "env \<Rightarrow> pipeline \<Rightarrow> string \<Rightarrow> string \<Rightarrow> world \<Rightarrow> pyfloat option \<times> world" where
  "fred_method e self series_id label w =
     (if truthy (fred_api_key self)
      then (case fetch_from_fred e self series_id 10 w of
              (Inl err, w1) \<Rightarrow>
                (None, print (warning_sign @ ''  '' @ label @ '' failed: '' @ str_exc err) w1)
            | (Inr None, w1) \<Rightarrow> (None, w1)
            | (Inr (Some fred_rate), w1) \<Rightarrow>
                (Some (fdiv fred_rate (Fin 100)),
                 print (check_mark @ '' Risk-free rate from '' @ label @ '': '' @
                        format_float e ''.3f'' fred_rate @ ''%'') w1))
      else (None, w))"

text \<open>Method 2: the last close of \<open>^IRX\<close> on Yahoo Finance.\<close>

definition irx_method :: "env \<Rightarrow> world \<Rightarrow> pyfloat option \<times> world" where
  "irx_method e w =
     (case yf_download_call e ''^IRX'' (Period ''5d'') w of
        (Inl err, w1) \<Rightarrow>
          (None, print (warning_sign @ ''  Yahoo ^IRX failed: '' @ str_exc err) w1)
      | (Inr irx_data, w1) \<Rightarrow>
          if \<not> df_empty irx_data
          then (if ''Close'' \<in> set (columns irx_data)
                then (let latest_rate = last (series irx_data ''Close'')
                      in if \<not> isnan latest_rate \<and> fgt latest_rate (Fin 0)
                         then (Some (fdiv latest_rate (Fin 100)),
                               print (check_mark @ '' Risk-free rate from Yahoo ^IRX: '' @
                                      format_float e ''.3f'' latest_rate @ ''%'') w1)
                         else (None, w1))
                else (None, print (warning_sign @ ''  Yahoo ^IRX failed: '' @
                                   str_exc (KeyError (repr e ''Close''))) w1))
          else (None, w1))"

definition get_real_time_risk_free_rate :: "env \<Rightarrow> pipeline \<Rightarrow> world \<Rightarrow> (error + pyfloat) \<times> world" where
  "get_real_time_risk_free_rate e self w =
     (let w0 = print (arrows @ '' Fetching real-time risk-free rate...'') w
      in case fred_method e self ''DGS3MO'' ''FRED'' w0 of
           (Some rate, w1) \<Rightarrow> (Inr rate, w1)
         | (None, w1) \<Rightarrow>
             (case irx_method e w1 of
                (Some rate, w2) \<Rightarrow> (Inr rate, w2)
              | (None, w2) \<Rightarrow>
                  (case fred_method e self ''DGS1MO'' ''FRED 1M'' w2 of
                     (Some rate, w3) \<Rightarrow> (Inr rate, w3)
                   | (None, w3) \<Rightarrow>
                       (Inl (Exception (cross_mark @
                          '' CRITICAL: Unable to fetch real-time risk-free rate from any source'')),
                        w3))))"

subsection \<open>\<open>get_real_time_market_data\<close>\<close>

text \<open>\<open>data['Close'].pct_change().dropna()\<close>, which raises \<open>KeyError\<close> without the column.\<close>

definition close_returns :: "env \<Rightarrow> table \<Rightarrow> error + pyfloat list" where
  "close_returns e d =
     (if ''Close'' \<in> set (columns d) then Inr (pct_change_dropna e (series d ''Close''))
      else Inl (KeyError (repr e ''Close'')))"

text \<open>The primary \<open>try\<close> block: the S&P 500 index.\<close>

definition primary_market_data :: "env \<Rightarrow> string \<Rightarrow> world \<Rightarrow> (error + pyfloat list) \<times> world" where
  "primary_market_data e period w =
     (case fetch_from_yfinance e ''^GSPC'' period w of
        (Inl err, w1) \<Rightarrow> (Inl err, w1)
      | (Inr market_data, w1) \<Rightarrow>
          if len market_data < 50
          then (Inl (ValueError (''Insufficient market data: '' @ str_nat (len market_data) @
                                 '' observations'')), w1)
          else (case close_returns e market_data of
                  Inl err \<Rightarrow> (Inl err, w1)
                | Inr returns \<Rightarrow>
                    (Inr returns,
                     print (check_mark @ '' Market data fetched: '' @ str_nat (length returns) @
                            '' daily returns'') w1)))"

text \<open>The \<open>except\<close> clause of the primary block: the backup proxy (VTI).\<close>

definition backup_market_data ::
    "env \<Rightarrow> string \<Rightarrow> error \<Rightarrow> world \<Rightarrow> (error + pyfloat list) \<times> world" where
  "backup_market_data e period err w =
     (let w1 = print (cross_mark @ '' Market data fetch failed: '' @ str_exc err) w;
          w2 = print (arrows @ '' Trying backup market proxy (VTI)...'') w1;
          all_failed = (\<lambda>backup_error. Exception (cross_mark @
              '' CRITICAL: All market data sources failed. Primary: '' @ str_exc err @
              '', Backup: '' @ str_exc backup_error))
      in (case fetch_from_yfinance e ''VTI'' period w2 of
            (Inl backup_error, w3) \<Rightarrow> (Inl (all_failed backup_error), w3)
          | (Inr vti_data, w3) \<Rightarrow>
              (case close_returns e vti_data of
                 Inl backup_error \<Rightarrow> (Inl (all_failed backup_error), w3)
               | Inr returns \<Rightarrow>
                   (Inr returns,
                    print (check_mark @ '' Backup market data (VTI): '' @
                           str_nat (length returns) @ '' returns'') w3))))"

definition get_real_time_market_data :: "env \<Rightarrow> string \<Rightarrow> world \<Rightarrow> (error + pyfloat list) \<times> world" where
  "get_real_time_market_data e period w =
     (let w0 = print (arrows @ '' Fetching real-time market data (S&P 500)...'') w
      in (case primary_market_data e period w0 of
            (Inr returns, w1) \<Rightarrow> (Inr returns, w1)
          | (Inl err, w1) \<Rightarrow> backup_market_data e period err w1))"

subsection \<open>\<open>system_health_check\<close>\<close>

text \<open>
  The entry \<open>sample_data_quality\<close> of the report is a dictionary of one status per
  sample ticker, or, when the sample fetch raised, a single string.
\<close>

datatype sample_quality = Per_ticker "(string \<times> string) list" | Sample_error string

record health_report =
  timestamp :: string
  data_sources :: "(string \<times> string) list"
  sample_data_quality :: sample_quality
  risk_free_rate :: "string option"
  market_data :: "string option"
  overall_status :: string

definition healthy_status :: string where
  "healthy_status = ''HEALTHY '' @ check_mark"

definition error_status :: "error \<Rightarrow> string" where
  "error_status err = ''ERROR: '' @ str_exc err @ '' '' @ cross_mark"

text \<open>
  Statements that may raise. An action runs in a world and either returns a value or
  raises, leaving a new world. \<open>then_do\<close> runs a second action on the value of the first
  and stops at the first exception; \<open>try_except\<close> hands an exception of its body to the
  handler, which is the only way an exception is ever stopped.
\<close>

type_synonym 'a action = "world \<Rightarrow> (error + 'a) \<times> world"

definition returns :: "'a \<Rightarrow> 'a action" where
  "returns v w = (Inr v, w)"

definition then_do :: "'a action \<Rightarrow> ('a \<Rightarrow> 'b action) \<Rightarrow> 'b action" where
  "then_do first rest w =
     (case first w of
        (Inl err, w1) \<Rightarrow> (Inl err, w1)
      | (Inr v, w1) \<Rightarrow> rest v w1)"

definition try_except :: "'a action \<Rightarrow> (error \<Rightarrow> 'a action) \<Rightarrow> 'a action" where
  "try_except body handler w =
     (case body w of
        (Inl err, w1) \<Rightarrow> handler err w1
      | (Inr v, w1) \<Rightarrow> (Inr v, w1))"

definition say :: "string \<Rightarrow> unit action" where
  "say line w = (Inr (), print line w)"

definition now_action :: "env \<Rightarrow> int action" where
  "now_action e w = (case datetime_now e w of (now, w1) \<Rightarrow> (Inr now, w1))"

text \<open>\<open># Test yfinance\<close>\<close>

definition test_yfinance :: "env \<Rightarrow> string action" where
  "test_yfinance e =
     try_except
       (then_do (yf_download_call e ''AAPL'' (Period ''5d''))
          (\<lambda>test_data.
             returns (if \<not> df_empty test_data then healthy_status else ''NO DATA '' @ cross_mark)))
       (\<lambda>err. returns (error_status err))"

text \<open>\<open># Test FRED (if API key available)\<close>\<close>

definition test_fred :: "env \<Rightarrow> pipeline \<Rightarrow> string action" where
  "test_fred e self =
     (if truthy (fred_api_key self)
      then try_except
             (then_do (fetch_from_fred e self ''DGS3MO'' 1)
                (\<lambda>fred_test.
                   returns (if fred_test \<noteq> None then healthy_status else ''NO DATA '' @ cross_mark)))
             (\<lambda>err. returns (error_status err))
      else returns (''NO API KEY '' @ warning_sign))"

text \<open>\<open># Test risk-free rate\<close>\<close>

definition test_risk_free_rate :: "env \<Rightarrow> pipeline \<Rightarrow> string action" where
  "test_risk_free_rate e self =
     try_except
       (then_do (get_real_time_risk_free_rate e self)
          (\<lambda>rf_rate.
             returns (format_float e ''.4f'' rf_rate @ '' ('' @
                      format_float e ''.2f'' (fmul rf_rate (Fin 100)) @ ''%) '' @ check_mark)))
       (\<lambda>err. returns (error_status err))"

text \<open>\<open># Test market data\<close>\<close>

definition test_market_data :: "env \<Rightarrow> string action" where
  "test_market_data e =
     try_except
       (then_do (get_real_time_market_data e ''1mo'')
          (\<lambda>market_returns.
             returns (str_nat (length market_returns) @ '' returns '' @ check_mark)))
       (\<lambda>err. returns (error_status err))"

text \<open>\<open># Test sample portfolio data\<close>\<close>

definition sample_tickers :: "string list" where
  "sample_tickers = [''AAPL'', ''MSFT'', ''GOOGL'']"

text \<open>The status of one sample ticker, by the body of the loop over the sample tickers.\<close>

definition data_quality :: "(string \<times> table) list \<Rightarrow> string \<Rightarrow> string" where
  "data_quality sample_data ticker =
     (case map_of sample_data ticker of
        Some d \<Rightarrow> if len d > 15 then healthy_status else ''LIMITED DATA '' @ warning_sign
      | None \<Rightarrow> ''FAILED '' @ cross_mark)"

definition test_sample_data :: "env \<Rightarrow> sample_quality action" where
  "test_sample_data e =
     try_except
       (then_do (fetch_real_time_stock_data e (Many sample_tickers) ''1mo'' True)
          (\<lambda>sample_data.
             returns (Per_ticker
               (fold (\<lambda>ticker quality. AList.update ticker (data_quality sample_data ticker) quality)
                     sample_tickers []))))
       (\<lambda>err. returns (Sample_error (error_status err)))"

text \<open>\<open># Determine overall status\<close>\<close>

definition healthy_sources :: "(string \<times> string) list \<Rightarrow> nat" where
  "healthy_sources sources = length (filter (\<lambda>status. sublist ''HEALTHY'' status) (map snd sources))"

definition determine_overall_status :: "(string \<times> string) list \<Rightarrow> string" where
  "determine_overall_status sources =
     (let total_sources = length sources
      in if healthy_sources sources = total_sources then ''HEALTHY '' @ check_mark
         else if healthy_sources sources > 0 then ''DEGRADED '' @ warning_sign
         else ''CRITICAL '' @ cross_mark)"

text \<open>The report as it is printed at the end, one line per \<open>print\<close>.\<close>

definition rule_line :: string where
  "rule_line = replicate 50 CHR ''=''"

definition dict_lines :: "string \<Rightarrow> (string \<times> string) list \<Rightarrow> string list" where
  "dict_lines category items =
     ([CHR 0x0A] @ category @ '':'') # map (\<lambda>(item, item_status). ''  '' @ item @ '': '' @ item_status) items"

definition report_lines :: "health_report \<Rightarrow> string list" where
  "report_lines r =
     [[CHR 0x0A] @ rule_line, ''SYSTEM HEALTH REPORT'', rule_line,
      ''TIMESTAMP: '' @ timestamp r] @
     dict_lines ''DATA_SOURCES'' (data_sources r) @
     (case sample_data_quality r of
        Per_ticker items \<Rightarrow> dict_lines ''SAMPLE_DATA_QUALITY'' items
      | Sample_error status \<Rightarrow> [''SAMPLE_DATA_QUALITY: '' @ status]) @
     [''RISK_FREE_RATE: '' @ (case risk_free_rate r of Some status \<Rightarrow> status | None \<Rightarrow> ''None''),
      ''MARKET_DATA: '' @ (case market_data r of Some status \<Rightarrow> status | None \<Rightarrow> ''None''),
      ''OVERALL_STATUS: '' @ overall_status r,
      rule_line]"

text \<open>The lines printed at the end.\<close>

definition print_report :: "health_report \<Rightarrow> unit action" where
  "print_report r w = (Inr (), fold print (report_lines r) w)"

text \<open>
  The function: the five probes in the order of the source, each a \<open>try\<close> block, then the
  overall status, the printing and the \<open>return\<close>. An exception that left one of the steps
  would leave the function.
\<close>

definition system_health_check :: "env \<Rightarrow> pipeline \<Rightarrow> health_report action" where
  "system_health_check e self =
     then_do (say (hospital @ '' Running system health check...'')) (\<lambda>u.
     then_do (now_action e) (\<lambda>now.
     then_do (test_yfinance e) (\<lambda>yfinance_status.
     then_do (test_fred e self) (\<lambda>fred_status.
     then_do (test_risk_free_rate e self) (\<lambda>rf_status.
     then_do (test_market_data e) (\<lambda>market_status.
     then_do (test_sample_data e) (\<lambda>sample_status.
       let sources = [(''yfinance'', yfinance_status), (''fred'', fred_status)];
           r = \<lparr>timestamp = isoformat e now,
                data_sources = sources,
                sample_data_quality = sample_status,
                risk_free_rate = Some rf_status,
                market_data = Some market_status,
                overall_status = determine_overall_status sources\<rparr>
       in then_do (print_report r) (\<lambda>u. returns r))))))))"

text \<open>
  What it is for the two probed sources to succeed: the download returned a frame that
  is not empty (line 359); a credential is configured and the FRED fetch returned an
  observation (lines 367 to 371).
\<close>

definition yfinance_succeeded :: "env \<Rightarrow> world \<Rightarrow> bool" where
  "yfinance_succeeded e w =
     (case fst (yf_download_call e ''AAPL'' (Period ''5d'') w) of
        Inl err \<Rightarrow> False
      | Inr test_data \<Rightarrow> \<not> df_empty test_data)"

definition fred_succeeded :: "env \<Rightarrow> pipeline \<Rightarrow> world \<Rightarrow> bool" where
  "fred_succeeded e self w =
     (truthy (fred_api_key self) \<and>
      (case fst (fetch_from_fred e self ''DGS3MO'' 1 w) of
         Inl err \<Rightarrow> False
       | Inr fred_test \<Rightarrow> fred_test \<noteq> None))"

text \<open>The outcome is an exception whose message itself contains the text \<open>HEALTHY\<close>.\<close>

definition names_healthy :: "error + 'a \<Rightarrow> bool" where
  "names_healthy outcome =
     (case outcome of Inl err \<Rightarrow> sublist ''HEALTHY'' (str_exc err) | Inr v \<Rightarrow> False)"

section \<open>Test doubles and sample inputs\<close>

text \<open>A table with a single column \<open>Close\<close>, one row a day, holding the given prices.\<close>

definition price_table :: "rat list \<Rightarrow> table" where
  "price_table prices =
     \<lparr>columns = [''Close''],
      rows = map (\<lambda>(i, p). (86400 * int i, \<lambda>c. Fin p)) (enumerate 0 prices)\<rparr>"

text \<open>
  Rounding to float64 for the test environment: to the nearest value with 53 significant
  bits, a tie going to the neighbour with an even last bit. The range limits of float64
  (overflow to infinity, subnormal numbers) are far from the sample values and are left
  out.
\<close>

function bit_length :: "int \<Rightarrow> nat" where
  "bit_length n = (if n \<le> 0 then 0 else Suc (bit_length (n div 2)))"
  by pat_completeness auto
termination
  by (relation "measure nat") auto

declare bit_length.simps [simp del]

definition pow2 :: "int \<Rightarrow> rat" where
  "pow2 k = (if 0 \<le> k then 2 ^ nat k else 1 / 2 ^ nat (- k))"

text \<open>The exponent \<open>k\<close> with \<open>2 ^ k \<le> |x| < 2 ^ (k + 1)\<close>, for \<open>x\<close> other than 0.\<close>

definition exponent2 :: "rat \<Rightarrow> int" where
  "exponent2 x =
     (let (a, b) = quotient_of \<bar>x\<bar>;
          d = int (bit_length a) - int (bit_length b)
      in if pow2 d \<le> \<bar>x\<bar> then d else d - 1)"

definition round_half_even :: "rat \<Rightarrow> int" where
  "round_half_even x =
     (let f = \<lfloor>x\<rfloor>; d = x - of_int f
      in if d < 1 / 2 then f else if 1 / 2 < d then f + 1 else if even f then f else f + 1)"

definition binary64 :: "rat \<Rightarrow> pyfloat" where
  "binary64 x =
     (if x = 0 then Fin 0
      else let u = pow2 (exponent2 x - 52)
           in Fin (of_int (round_half_even (x / u)) * u))"

text \<open>
  An environment around the given sources: the clock stands at 0, floats are rounded by
  \<open>binary64\<close>, and the library functions that format values are simple stand-ins.
\<close>

definition quote_repr :: "string \<Rightarrow> string" where
  "quote_repr s = [CHR 0x27] @ s @ [CHR 0x27]"

definition test_env ::
    "(request list \<Rightarrow> string \<Rightarrow> yf_window \<Rightarrow> error + table) \<Rightarrow>
     (request list \<Rightarrow> string \<Rightarrow> string \<Rightarrow> nat \<Rightarrow> error + fred_value list) \<Rightarrow> env" where
  "test_env yf fred =
     \<lparr>clock = (\<lambda>h. 0), yf_download = yf, fred_get = fred, float64 = binary64,
      format_float = (\<lambda>spec x. ''#''), repr = quote_repr, isoformat = (\<lambda>t. ''T'')\<rparr>"

definition world0 :: world where
  "world0 = \<lparr>history = [], stdout = []\<rparr>"

fun is_download :: "request \<Rightarrow> bool" where
  "is_download (YfDownload ticker win) = True"
| "is_download _ = False"

definition timed_out :: error where
  "timed_out = SourceError ''ConnectionError'' ''timed out''"

text \<open>Yahoo Finance is down; FRED refuses every request.\<close>

definition yf_down :: "request list \<Rightarrow> string \<Rightarrow> yf_window \<Rightarrow> error + table" where
  "yf_down h ticker win = Inl timed_out"

definition fred_down :: "request list \<Rightarrow> string \<Rightarrow> string \<Rightarrow> nat \<Rightarrow> error + fred_value list" where
  "fred_down h series_id key limit = Inl (SourceError ''HTTPError'' ''400 Client Error'')"

text \<open>Yahoo Finance is down, and says so in words that contain \<open>HEALTHY\<close>.\<close>

definition yf_unhealthy :: "request list \<Rightarrow> string \<Rightarrow> yf_window \<Rightarrow> error + table" where
  "yf_unhealthy h ticker win = Inl (SourceError ''ConnectionError'' ''UNHEALTHY upstream'')"

text \<open>Yahoo Finance fails on the first two downloads and answers from the third on.\<close>

definition yf_flaky :: "table \<Rightarrow> request list \<Rightarrow> string \<Rightarrow> yf_window \<Rightarrow> error + table" where
  "yf_flaky tbl h ticker win =
     (if length (filter is_download h) < 2 then Inl timed_out else Inr tbl)"

text \<open>Yahoo Finance answers every download with the same table.\<close>

definition yf_up :: "table \<Rightarrow> request list \<Rightarrow> string \<Rightarrow> yf_window \<Rightarrow> error + table" where
  "yf_up tbl h ticker win = Inr tbl"


text \<open>FRED answers every request with one observation of the given value.\<close>

definition fred_up :: "pyfloat \<Rightarrow> request list \<Rightarrow> string \<Rightarrow> string \<Rightarrow> nat \<Rightarrow> error + fred_value list" where
  "fred_up v h series_id key limit = Inr [FloatText v]"

definition no_key :: pipeline where
  "no_key = \<lparr>fred_api_key = None, alpha_vantage_key = None\<rparr>"

definition with_key :: pipeline where
  "with_key = \<lparr>fred_api_key = Some ''KEY'', alpha_vantage_key = None\<rparr>"

text \<open>
  Sample tables: 100 days with three doublings, 100 days with one doubling, 10 steady
  days, and 20 days with a second column in which four cells are missing.
\<close>

definition spikes3 :: table where
  "spikes3 = price_table (100 # 200 # 400 # replicate 97 800)"

definition spike1 :: table where
  "spike1 = price_table (100 # replicate 99 200)"

definition short10 :: table where
  "short10 = price_table (replicate 10 100)"

text \<open>
  The float64 value just below one half, which Python prints as 0.49999999999999994, and
  a table that opens at 1.0 and stays at that value for 20 days: the exact first change
  is a little more than one half in absolute value, the float64 change is -0.5.
\<close>

definition below_half :: rat where
  "below_half = 9007199254740991 / 18014398509481984"

definition half_step :: table where
  "half_step = price_table (1 # replicate 20 below_half)"

definition gap_table :: table where
  "gap_table =
     \<lparr>columns = [''Close'', ''Volume''],
      rows = map (\<lambda>i. (86400 * int i, \<lambda>c. if c = ''Volume'' \<and> i < 4 then NaN else Fin 100))
                 [0..<20]\<rparr>"

section \<open>Properties of the quality gate\<close>

lemma test_env_simps [simp]:
  "clock (test_env yf fred) = (\<lambda>h. 0)" "yf_download (test_env yf fred) = yf"
  "fred_get (test_env yf fred) = fred" "float64 (test_env yf fred) = binary64"
  "repr (test_env yf fred) = quote_repr"
  "format_float (test_env yf fred) = (\<lambda>spec x. ''#'')" "isoformat (test_env yf fred) = (\<lambda>t. ''T'')"
  by (simp_all add: test_env_def)

lemma binary64_0 [simp]: "binary64 0 = Fin 0"
  by (simp add: binary64_def)

lemma binary64_1 [simp]: "binary64 1 = Fin 1"
  by code_simp

lemma binary64_2 [simp]: "binary64 2 = Fin 2"
  by code_simp

lemma suspicious_iff:
  "fgt (of_count a) (fmul (of_count b) (Fin r)) \<longleftrightarrow> (of_nat a > r * of_nat b)"
  by (simp add: of_count_def mult.commute)

lemma print_inject [simp]: "print a w = print b w \<longleftrightarrow> a = b"
proof
  assume "print a w = print b w"
  then have "stdout (print a w) = stdout (print b w)" by simp
  then show "a = b" by (simp add: print_def)
qed simp

lemma check_freshness_accepts [simp]: "fst (check_freshness e d ticker w) = True"
  by (simp add: check_freshness_def Let_def split: prod.split)

lemma missing_pct_gt:
  "0 < len d \<Longrightarrow> columns d \<noteq> [] \<Longrightarrow>
   fgt (fdiv (of_count (isnull_sum d)) (of_count (len d * length (columns d)))) (Fin 0.1)
     \<longleftrightarrow> missing_fraction d > 0.1"
  by (simp add: of_count_def missing_fraction_def)

lemma fgt_not_fle: "fgt c (Fin 0) \<Longrightarrow> \<not> fle c (Fin 0)"
  by (cases c) auto

lemma price_rows_snd:
  "map (\<lambda>r. snd r name) (map (\<lambda>(i, p). (f i, \<lambda>c. Fin p)) (enumerate n ps)) = map Fin ps"
  by (induction ps arbitrary: n) auto

lemma len_price_table [simp]: "len (price_table ps) = length ps"
  by (simp add: len_def price_table_def)

lemma columns_price_table [simp]: "columns (price_table ps) = [''Close'']"
  by (simp add: price_table_def)

lemma df_empty_price_table [simp]: "df_empty (price_table ps) \<longleftrightarrow> ps = []"
  by (cases ps) (simp_all add: df_empty_def price_table_def)

lemma series_price_table [simp]: "series (price_table ps) name = map Fin ps"
  using price_rows_snd [of name "\<lambda>i. 86400 * int i" 0 ps]
  by (simp add: series_def price_table_def)

lemma dropna_series_Fin [simp]: "dropna_series (map Fin ps) = map Fin ps"
  by (induction ps) (auto simp: dropna_series_def)

lemma close_prices_price_table [simp]: "close_prices (price_table ps) = map Fin ps"
  by (simp add: close_prices_def)

lemma isnull_sum_price_table [simp]: "isnull_sum (price_table ps) = 0"
proof -
  have "\<And>n. (\<Sum>r\<leftarrow>map (\<lambda>(i, p). (86400 * int i, \<lambda>c. Fin p)) (enumerate n ps).
              length (filter (\<lambda>c. isnan (snd r c)) [''Close''])) = 0"
    by (induction ps) auto
  then show ?thesis by (simp add: isnull_sum_def price_table_def)
qed

lemma dropna_price_table [simp]: "dropna (price_table ps) = price_table ps"
proof -
  have "\<And>n. filter (\<lambda>r. \<not> isnan (snd r ''Close''))
               (map (\<lambda>(i, p). (86400 * int i, \<lambda>c. Fin p)) (enumerate n ps)) =
             map (\<lambda>(i, p). (86400 * int i, \<lambda>c. Fin p)) (enumerate n ps)"
    by (induction ps) auto
  then show ?thesis by (simp add: dropna_def price_table_def)
qed

lemma missing_fraction_price_table [simp]: "missing_fraction (price_table ps) = 0"
  by (simp add: missing_fraction_def)

lemma pct_change_steady:
  "p \<noteq> 0 \<Longrightarrow> float64 e 1 = Fin 1 \<Longrightarrow> float64 e 0 = Fin 0 \<Longrightarrow>
   pct_change e (Fin p # replicate n (Fin p)) = replicate n (Fin 0)"
  by (induction n) auto

lemma check_freshness_not_reject [simp]: "check_freshness e d ticker w \<noteq> (False, w')"
  using check_freshness_accepts [of e d ticker w] by (metis fst_conv)

lemma pct_change_jump:
  "p \<noteq> 0 \<Longrightarrow> float64 e 1 = Fin 1 \<Longrightarrow> float64 e 0 = Fin 0 \<Longrightarrow>
   pct_change e (Fin a # replicate (Suc n) (Fin p)) =
     rounded e (fsub (rounded e (fdiv (Fin p) (Fin a))) (Fin 1)) # replicate n (Fin 0)"
  using pct_change_steady [where p = p and e = e and n = n] by simp

lemma changes_steady:
  "p \<noteq> 0 \<Longrightarrow>
   close_changes (test_env yf fred) (price_table (replicate (Suc n) p)) = replicate n (Fin 0)"
  using pct_change_steady [where p = p and e = "test_env yf fred" and n = n]
  by (simp add: close_changes_def pct_change_dropna_def dropna_series_def)

lemma changes_spikes3:
  "close_changes (test_env yf fred) spikes3 = Fin 1 # Fin 1 # Fin 1 # replicate 96 (Fin 0)"
proof -
  have "pct_change (test_env yf fred) (Fin 400 # replicate 97 (Fin 800)) =
          Fin 1 # replicate 96 (Fin 0)"
    using pct_change_jump [where p = 800 and a = 400 and n = 96 and e = "test_env yf fred"]
    by simp
  then show ?thesis
    by (simp add: spikes3_def close_changes_def pct_change_dropna_def dropna_series_def
          del: replicate.simps)
qed

lemma changes_spike1:
  "close_changes (test_env yf fred) spike1 = Fin 1 # replicate 98 (Fin 0)"
proof -
  have "pct_change (test_env yf fred) (Fin 100 # replicate 99 (Fin 200)) =
          Fin 1 # replicate 98 (Fin 0)"
    using pct_change_jump [where p = 200 and a = 100 and n = 98 and e = "test_env yf fred"]
    by simp
  then show ?thesis
    by (simp add: spike1_def close_changes_def pct_change_dropna_def dropna_series_def
          del: replicate.simps)
qed

lemma changes_short10: "close_changes (test_env yf fred) short10 = replicate 9 (Fin 0)"
  using changes_steady [where p = 100 and n = 9 and yf = yf and fred = fred]
  by (simp add: short10_def del: replicate.simps)

lemma below_half_pos: "0 < below_half" "below_half \<noteq> 0" "\<not> below_half \<le> 0"
  by (simp_all add: below_half_def)

lemma binary64_below_half: "binary64 below_half = Fin below_half"
  unfolding below_half_def by code_simp

lemma binary64_below_half_change: "binary64 (below_half - 1) = Fin (- 1 / 2)"
  unfolding below_half_def by code_simp

lemma changes_half_step:
  "close_changes (test_env yf fred) half_step = Fin (- 1 / 2) # replicate 19 (Fin 0)"
proof -
  have "pct_change (test_env yf fred) (Fin 1 # replicate 20 (Fin below_half)) =
          Fin (- 1 / 2) # replicate 19 (Fin 0)"
    using pct_change_jump [where p = below_half and a = 1 and n = 19 and e = "test_env yf fred"]
    by (simp add: below_half_pos binary64_below_half binary64_below_half_change)
  then show ?thesis
    by (simp add: half_step_def close_changes_def pct_change_dropna_def dropna_series_def
          del: replicate.simps)
qed

lemma extreme_moves_half_step: "extreme_moves (test_env yf fred) half_step = 0"
  by (simp add: extreme_moves_def changes_half_step)

lemma extreme_moves_spikes3: "extreme_moves (test_env yf fred) spikes3 = 3"
  by (simp add: extreme_moves_def changes_spikes3)

lemma extreme_moves_spike1: "extreme_moves (test_env yf fred) spike1 = 1"
  by (simp add: extreme_moves_def changes_spike1)

lemma extreme_moves_short10: "extreme_moves (test_env yf fred) short10 = 0"
  by (simp add: extreme_moves_def changes_short10)

lemma len_gap_table: "len gap_table = 20"
  by (simp add: gap_table_def len_def)

lemma isnull_sum_gap_table: "isnull_sum gap_table = 4"
  by (simp add: gap_table_def isnull_sum_def upt_rec)

lemma missing_fraction_gap_table: "missing_fraction gap_table = 0.1"
  by (simp add: missing_fraction_def len_gap_table isnull_sum_gap_table) (simp add: gap_table_def)

lemma close_prices_gap_table: "close_prices gap_table = replicate 20 (Fin 100)"
  by (simp add: close_prices_def gap_table_def series_def dropna_series_def upt_rec eval_nat_numeral)

lemma close_changes_gap_table: "close_changes (test_env yf fred) gap_table = replicate 19 (Fin 0)"
  by (simp add: close_changes_def close_prices_gap_table pct_change_dropna_def dropna_series_def
        eval_nat_numeral)

lemma extreme_moves_gap_table: "extreme_moves (test_env yf fred) gap_table = 0"
  by (simp add: extreme_moves_def close_changes_gap_table)

lemma valid_prices_gap_table: "valid_prices (test_env yf fred) gap_table"
  by (simp add: valid_prices_def close_prices_gap_table close_changes_gap_table
        extreme_moves_gap_table)

lemma validate_verdict_world:
  "fst (validate_data_quality e data ticker w) = fst (validate_data_quality e data ticker' w')"
  by (simp add: validate_data_quality_def check_freshness_def Let_def
           split: option.split prod.split)

text \<open>
  C7. A table that is not empty and has fewer than 20 rows is rejected whatever its
  cells hold, and the line printed for the rejection is the insufficient-data-points
  line with the table's own row count.
\<close>

theorem validate_insufficient_rows:
  assumes "\<not> df_empty d" and "len d < 20"
  shows "validate_data_quality e (Some d) ticker w =
           (False, print (cross_mark @ '' '' @ ticker @ '': Insufficient data points ('' @
                          str_nat (len d) @ '')'') w)"
  using assms by (simp add: validate_data_quality_def)

theorem validate_insufficient_rows_witness:
  "\<not> df_empty \<lparr>columns = [''Close''], rows = [(0, \<lambda>c. Fin 100), (86400, \<lambda>c. NInf)]\<rparr> \<and>
   len \<lparr>columns = [''Close''], rows = [(0, \<lambda>c. Fin 100), (86400, \<lambda>c. NInf)]\<rparr> < 20 \<and>
   validate_data_quality (test_env yf_down fred_down)
       (Some \<lparr>columns = [''Close''], rows = [(0, \<lambda>c. Fin 100), (86400, \<lambda>c. NInf)]\<rparr>) ''AAA''
       \<lparr>history = [], stdout = []\<rparr> =
     (False, \<lparr>history = [], stdout = [cross_mark @ '' AAA: Insufficient data points (2)'']\<rparr>)"
proof -
  let ?d = "\<lparr>columns = [''Close''], rows = [(0, \<lambda>c. Fin 100), (86400, \<lambda>c. NInf)]\<rparr>"
  have ne: "\<not> df_empty ?d" by (simp add: df_empty_def)
  have lt: "len ?d < 20" by (simp add: len_def)
  have two: "str_nat 2 = ''2''" by (simp add: str_nat.simps digit_def)
  have "len ?d = 2" by (simp add: len_def)
  with validate_insufficient_rows [OF ne lt, of "test_env yf_down fred_down" "''AAA''" "\<lparr>history = [], stdout = []\<rparr>"] ne lt two
  show ?thesis by (simp add: print_def)
qed

text \<open>
  C9. Validating the same table twice in succession gives the same verdict: the verdict
  is read from the table alone, whatever the clock says and whatever was printed or
  requested in between (the second call starts in the world the first one left).
\<close>

theorem validate_twice_same_verdict:
  "fst (validate_data_quality e data ticker (snd (validate_data_quality e data ticker w))) =
   fst (validate_data_quality e data ticker w)"
  by (rule validate_verdict_world)

text \<open>
  C6. For a table with at least 20 rows and at least one column, the gate rejects with the
  too-many-missing-values line exactly when the fraction of missing cells over all cells
  (rows times columns) is greater than 0.10; when the fraction is exactly 0.10 and the
  price checks find nothing, the table is accepted.
\<close>

theorem validate_missing_boundary:
  assumes "20 \<le> len d" and "columns d \<noteq> []"
  shows "(validate_data_quality e (Some d) ticker w =
            (False, print (cross_mark @ '' '' @ ticker @ '': Too many missing values ('' @
                           format_float e ''.1%''
                             (fdiv (of_count (isnull_sum d)) (of_count (len d * length (columns d)))) @
                           '')'') w)
          \<longleftrightarrow> missing_fraction d > 0.1) \<and>
         (missing_fraction d = 0.1 \<longrightarrow> valid_prices e d \<longrightarrow>
            fst (validate_data_quality e (Some d) ticker w) = True)"
proof -
  from assms have ne: "\<not> df_empty d" and pos: "0 < len d" by (auto simp: df_empty_def len_def)
  note gt = missing_pct_gt [OF pos assms(2)]
  have a: "(validate_data_quality e (Some d) ticker w =
            (False, print (cross_mark @ '' '' @ ticker @ '': Too many missing values ('' @
                           format_float e ''.1%''
                             (fdiv (of_count (isnull_sum d)) (of_count (len d * length (columns d)))) @
                           '')'') w)
          \<longleftrightarrow> missing_fraction d > 0.1)"
  proof (cases "missing_fraction d > 0.1")
    case True
    with assms(1) ne gt show ?thesis by (simp add: validate_data_quality_def)
  next
    case False
    with assms(1) ne gt show ?thesis
      by (simp add: validate_data_quality_def Let_def cross_mark_def warning_sign_def)
  qed
  have b: "missing_fraction d = 0.1 \<longrightarrow> valid_prices e d \<longrightarrow>
            fst (validate_data_quality e (Some d) ticker w) = True"
    using assms(1) ne gt
    by (simp add: validate_data_quality_def suspicious_iff Let_def
          valid_prices_def close_prices_def close_changes_def extreme_moves_def)
  from a b show ?thesis by blast
qed

theorem validate_missing_boundary_witness:
  "20 \<le> len gap_table \<and> columns gap_table \<noteq> [] \<and> missing_fraction gap_table = 0.1 \<and>
   valid_prices (test_env yf_down fred_down) gap_table \<and>
   fst (validate_data_quality (test_env yf_down fred_down) (Some gap_table) ''AAA'' world0) = True"
proof -
  have a: "20 \<le> len gap_table" "columns gap_table \<noteq> []"
    by (simp_all add: len_gap_table) (simp add: gap_table_def)
  from validate_missing_boundary [OF a, of "test_env yf_down fred_down" "''AAA''" world0]
       a missing_fraction_gap_table valid_prices_gap_table
  show ?thesis by simp
qed

text \<open>
  C5, as the code has it. The extreme-move check is the last of the rejecting checks, so
  it decides the verdict only for a table that passed the earlier ones: a table that is
  not empty, has at least 20 rows, at most 0.10 of its cells missing, a \<open>Close\<close> column
  with at least one close, and only positive closes is rejected exactly when the number
  of changes above 0.50 in absolute value is greater than 0.02 times the number of
  changes, and then with the suspicious-data line. The changes are the float64 values
  \<open>pct_change\<close> computes, whatever the rounding of the environment is. With 99
  changes, three extreme ones reject and one does not; and a first change that is a
  little more than one half before rounding and exactly -0.5 after it is not extreme.
\<close>

theorem validate_extreme_moves:
  assumes "\<not> df_empty d" and "20 \<le> len d" and "missing_fraction d \<le> 0.1"
    and "''Close'' \<in> set (columns d)" and "close_prices d \<noteq> []"
    and "\<forall>c\<in>set (close_prices d). fgt c (Fin 0)"
  shows "(fst (validate_data_quality e (Some d) ticker w) = False \<longleftrightarrow>
            of_nat (extreme_moves e d) > (0.02::rat) * of_nat (length (close_changes e d))) \<and>
         (of_nat (extreme_moves e d) > (0.02::rat) * of_nat (length (close_changes e d)) \<longrightarrow>
            validate_data_quality e (Some d) ticker w =
              (False, print (warning_sign @ ''  '' @ ticker @
                             '': Suspicious data - many extreme price movements'') w)) \<and>
         (length (close_changes e d) = 99 \<and> extreme_moves e d = 3 \<longrightarrow>
            fst (validate_data_quality e (Some d) ticker w) = False) \<and>
         (length (close_changes e d) = 99 \<and> extreme_moves e d = 1 \<longrightarrow>
            fst (validate_data_quality e (Some d) ticker w) = True)"
proof -
  from assms(1,2) have pos: "0 < len d" and cols: "columns d \<noteq> []"
    by (auto simp: df_empty_def)
  from assms(3) missing_pct_gt [OF pos cols]
  have miss: "\<not> fgt (fdiv (of_count (isnull_sum d)) (of_count (len d * length (columns d)))) (Fin 0.1)"
    by simp
  from assms(6) have nonpos: "\<not> (\<exists>c\<in>set (dropna_series (series d ''Close'')). fle c (Fin 0))"
    by (auto simp: close_prices_def dest: fgt_not_fle)
  from assms(5) have some: "length (dropna_series (series d ''Close'')) \<noteq> 0"
    by (simp add: close_prices_def)
  have v: "validate_data_quality e (Some d) ticker w =
        (if of_nat (extreme_moves e d) > (0.02::rat) * of_nat (length (close_changes e d))
         then (False, print (warning_sign @ ''  '' @ ticker @
                             '': Suspicious data - many extreme price movements'') w)
         else check_freshness e d ticker w)"
    unfolding validate_data_quality_def Let_def suspicious_iff extreme_moves_def
      close_changes_def close_prices_def
    using assms(1,2,4) miss nonpos some by simp
  show ?thesis unfolding v by simp
qed

theorem validate_extreme_moves_witness:
  "\<not> df_empty spikes3 \<and> 20 \<le> len spikes3 \<and> missing_fraction spikes3 \<le> 0.1 \<and>
   ''Close'' \<in> set (columns spikes3) \<and> close_prices spikes3 \<noteq> [] \<and>
   close_prices spikes3 = map Fin (100 # 200 # 400 # replicate 97 800) \<and>
   length (close_changes (test_env yf_down fred_down) spikes3) = 99 \<and> extreme_moves (test_env yf_down fred_down) spikes3 = 3 \<and>
   validate_data_quality (test_env yf_down fred_down) (Some spikes3) ''AAA'' world0 =
     (False, print (warning_sign @ ''  AAA: Suspicious data - many extreme price movements'') world0) \<and>
   \<not> df_empty spike1 \<and> 20 \<le> len spike1 \<and> missing_fraction spike1 \<le> 0.1 \<and>
   ''Close'' \<in> set (columns spike1) \<and> close_prices spike1 \<noteq> [] \<and>
   close_prices spike1 = map Fin (100 # replicate 99 200) \<and>
   length (close_changes (test_env yf_down fred_down) spike1) = 99 \<and>
   extreme_moves (test_env yf_down fred_down) spike1 = 1 \<and>
   fst (validate_data_quality (test_env yf_down fred_down) (Some spike1) ''AAA'' world0) = True \<and>
   \<not> df_empty half_step \<and> 20 \<le> len half_step \<and> missing_fraction half_step \<le> 0.1 \<and>
   ''Close'' \<in> set (columns half_step) \<and>
   close_prices half_step = map Fin (1 # replicate 20 below_half) \<and> 0 < below_half \<and>
   length (close_changes (test_env yf_down fred_down) half_step) = 20 \<and>
   extreme_moves (test_env yf_down fred_down) half_step = 0 \<and>
   fst (validate_data_quality (test_env yf_down fred_down) (Some half_step) ''AAA'' world0) = True"
proof -
  let ?e = "test_env yf_down fred_down"
  have a: "\<not> df_empty spikes3" "20 \<le> len spikes3" "missing_fraction spikes3 \<le> 0.1"
    "''Close'' \<in> set (columns spikes3)" "close_prices spikes3 \<noteq> []"
    "\<forall>c\<in>set (close_prices spikes3). fgt c (Fin 0)"
    by (simp_all add: spikes3_def)
  have b: "\<not> df_empty spike1" "20 \<le> len spike1" "missing_fraction spike1 \<le> 0.1"
    "''Close'' \<in> set (columns spike1)" "close_prices spike1 \<noteq> []"
    "\<forall>c\<in>set (close_prices spike1). fgt c (Fin 0)"
    by (simp_all add: spike1_def)
  have h: "\<not> df_empty half_step" "20 \<le> len half_step" "missing_fraction half_step \<le> 0.1"
    "''Close'' \<in> set (columns half_step)" "close_prices half_step \<noteq> []"
    "\<forall>c\<in>set (close_prices half_step). fgt c (Fin 0)"
    by (simp_all add: half_step_def below_half_pos)
  have c: "length (close_changes ?e spikes3) = 99" "extreme_moves ?e spikes3 = 3"
    "length (close_changes ?e spike1) = 99" "extreme_moves ?e spike1 = 1"
    "length (close_changes ?e half_step) = 20" "extreme_moves ?e half_step = 0"
    by (simp_all add: extreme_moves_spikes3 extreme_moves_spike1 extreme_moves_half_step
          changes_spikes3 changes_spike1 changes_half_step)
  have d: "close_prices spikes3 = map Fin (100 # 200 # 400 # replicate 97 800)"
    "close_prices spike1 = map Fin (100 # replicate 99 200)"
    "close_prices half_step = map Fin (1 # replicate 20 below_half)" "0 < below_half"
    by (simp_all add: spikes3_def spike1_def half_step_def below_half_pos del: replicate.simps)
  from validate_extreme_moves [OF a, of ?e "''AAA''" world0] c
  have r3: "validate_data_quality ?e (Some spikes3) ''AAA'' world0 =
     (False, print (warning_sign @ ''  AAA: Suspicious data - many extreme price movements'') world0)"
    by simp
  from validate_extreme_moves [OF b, of ?e "''AAA''" world0] c
  have r1: "fst (validate_data_quality ?e (Some spike1) ''AAA'' world0) = True"
    by simp
  from validate_extreme_moves [OF h, of ?e "''AAA''" world0] c
  have r0: "fst (validate_data_quality ?e (Some half_step) ''AAA'' world0) = True"
    by simp
  from a(1-4) b(1-4) h(1-4) c d r3 r1 r0 show ?thesis
    by (simp del: replicate.simps list.map)
qed

text \<open>
  The claim without the earlier checks fails: ten steady positive closes have no extreme
  change at all, and the table is rejected (for its row count).
\<close>

theorem validate_extreme_moves_counterexample:
  "''Close'' \<in> set (columns short10) \<and> close_prices short10 = replicate 10 (Fin 100) \<and>
   extreme_moves (test_env yf_down fred_down) short10 = 0 \<and> length (close_changes (test_env yf_down fred_down) short10) = 9 \<and>
   fst (validate_data_quality (test_env yf_down fred_down) (Some short10) ''AAA'' world0) = False"
  by (simp add: extreme_moves_short10 changes_short10) (simp add: short10_def validate_data_quality_def)

section \<open>Properties of the retrying fetcher\<close>

lemma history_print [simp]: "history (print line w) = history w"
  by (simp add: print_def)

lemma download_attempt_raises:
  "yf_download e (history w) ticker (StartEnd s en) = Inl err \<Longrightarrow>
   download_attempt e ticker s en w =
     (Inl err, w\<lparr>history := history w @ [YfDownload ticker (StartEnd s en)]\<rparr>)"
  by (simp add: download_attempt_def yf_download_call_def)

lemma download_attempt_returns:
  "yf_download e (history w) ticker (StartEnd s en) = Inr tbl \<Longrightarrow> \<not> df_empty tbl \<Longrightarrow>
   20 \<le> len (dropna tbl) \<Longrightarrow>
   fst (download_attempt e ticker s en w) = Inr (dropna tbl)"
  by (simp add: download_attempt_def yf_download_call_def Let_def datetime_now_def split: prod.split)

lemma download_attempt_downloads:
  "length (filter is_download (history (snd (download_attempt e ticker s en w)))) =
   Suc (length (filter is_download (history w)))"
  by (simp add: download_attempt_def yf_download_call_def Let_def datetime_now_def
           split: prod.split sum.split)

lemma fetch_attempts_last:
  "fetch_attempts e ticker s en 2 w = download_attempt e ticker s en w"
  by (subst fetch_attempts.simps) (simp add: max_retries_def split: prod.split sum.split)

lemma fetch_attempts_step:
  "attempt < 2 \<Longrightarrow> download_attempt e ticker s en w = (Inl err, w1) \<Longrightarrow>
   fetch_attempts e ticker s en attempt w =
     fetch_attempts e ticker s en (Suc attempt)
       (print (warning_sign @ ''  Retry '' @ str_nat (Suc attempt) @ '' for '' @ ticker @
               '': '' @ str_exc err) w1)"
  by (subst fetch_attempts.simps) (simp add: max_retries_def)

lemma fetch_attempts_done:
  "download_attempt e ticker s en w = (Inr tbl, w1) \<Longrightarrow>
   fetch_attempts e ticker s en attempt w = (Inr tbl, w1)"
  by (subst fetch_attempts.simps) simp

lemma fetch_attempts_downloads:
  "attempt \<le> 2 \<Longrightarrow>
   length (filter is_download (history (snd (fetch_attempts e ticker s en attempt w)))) \<le>
   length (filter is_download (history w)) + (3 - attempt)"
proof (induction e ticker s en attempt w rule: fetch_attempts.induct)
  case (1 e ticker s en attempt w)
  obtain r w1 where da: "download_attempt e ticker s en w = (r, w1)"
    by (cases "download_attempt e ticker s en w")
  have n1: "length (filter is_download (history w1)) = Suc (length (filter is_download (history w)))"
    using download_attempt_downloads [of e ticker s en w] da by simp
  show ?case
  proof (cases r)
    case (Inr tbl)
    with da n1 "1.prems" show ?thesis by (simp add: fetch_attempts_done)
  next
    case (Inl err)
    show ?thesis
    proof (cases "attempt < 2")
      case True
      with "1.IH" [of "Inl err" w1 err] da Inl
      have "length (filter is_download (history (snd (fetch_attempts e ticker s en (attempt + 1)
               (print (warning_sign @ ''  Retry '' @ str_nat (attempt + 1) @ '' for '' @ ticker @
               '': '' @ str_exc err) w1))))) \<le>
            length (filter is_download (history w1)) + (3 - (attempt + 1))"
        by (simp add: max_retries_def)
      with True da Inl n1 show ?thesis
        by (simp add: fetch_attempts_step)
    next
      case False
      with "1.prems" have "attempt = 2" by simp
      with da Inl n1 show ?thesis by (simp add: fetch_attempts_last)
    qed
  qed
qed

lemma fetch_attempts_unroll:
  assumes a1: "download_attempt e ticker s en w = (Inl err1, w1)"
    and a2: "download_attempt e ticker s en
          (print (warning_sign @ ''  Retry 1 for '' @ ticker @ '': '' @ str_exc err1) w1) = (Inl err2, w2)"
    and a3: "download_attempt e ticker s en
          (print (warning_sign @ ''  Retry 2 for '' @ ticker @ '': '' @ str_exc err2) w2) = (r, w3)"
  shows "fetch_attempts e ticker s en 0 w = (r, w3)"
proof -
  have one: "str_nat (Suc 0) = ''1''" and two: "str_nat (Suc (Suc 0)) = ''2''"
    by (simp_all add: str_nat.simps digit_def)
  have "fetch_attempts e ticker s en 0 w =
        fetch_attempts e ticker s en (Suc 0)
          (print (warning_sign @ ''  Retry 1 for '' @ ticker @ '': '' @ str_exc err1) w1)"
    using fetch_attempts_step [of 0, OF _ a1] by (simp add: one)
  also have "\<dots> = fetch_attempts e ticker s en 2
          (print (warning_sign @ ''  Retry 2 for '' @ ticker @ '': '' @ str_exc err2) w2)"
    using fetch_attempts_step [of "Suc 0", OF _ a2] by (simp add: two numeral_2_eq_2)
  also have "\<dots> = (r, w3)"
    by (simp only: fetch_attempts_last a3)
  finally show ?thesis .
qed

lemma fetch_attempts_sources:
  assumes s1: "yf_download e (history w) ticker (StartEnd s en) = Inl err1"
    and s2: "yf_download e (history w @ [YfDownload ticker (StartEnd s en)]) ticker (StartEnd s en) = Inl err2"
  shows "fetch_attempts e ticker s en 0 w =
         download_attempt e ticker s en
           (print (warning_sign @ ''  Retry 2 for '' @ ticker @ '': '' @ str_exc err2)
              ((print (warning_sign @ ''  Retry 1 for '' @ ticker @ '': '' @ str_exc err1)
                 (w\<lparr>history := history w @ [YfDownload ticker (StartEnd s en)]\<rparr>))
               \<lparr>history := history w @ [YfDownload ticker (StartEnd s en), YfDownload ticker (StartEnd s en)]\<rparr>))"
proof -
  let ?Y = "YfDownload ticker (StartEnd s en)"
  let ?w1 = "w\<lparr>history := history w @ [?Y]\<rparr>"
  let ?p1 = "print (warning_sign @ ''  Retry 1 for '' @ ticker @ '': '' @ str_exc err1) ?w1"
  let ?w2 = "?p1\<lparr>history := history w @ [?Y, ?Y]\<rparr>"
  let ?p2 = "print (warning_sign @ ''  Retry 2 for '' @ ticker @ '': '' @ str_exc err2) ?w2"
  have a1: "download_attempt e ticker s en w = (Inl err1, ?w1)"
    by (rule download_attempt_raises [OF s1])
  have "yf_download e (history ?p1) ticker (StartEnd s en) = Inl err2"
    using s2 by simp
  from download_attempt_raises [OF this]
  have a2: "download_attempt e ticker s en ?p1 = (Inl err2, ?w2)" by simp
  obtain r w3 where a3: "download_attempt e ticker s en ?p2 = (r, w3)"
    by (cases "download_attempt e ticker s en ?p2")
  from fetch_attempts_unroll [OF a1 a2 a3] a3 show ?thesis by simp
qed

lemma fetch_from_yfinance_down:
  "fst (fetch_from_yfinance (test_env yf_down fred) ticker period w) = Inl timed_out"
proof -
  have "fst (fetch_attempts (test_env yf_down fred) ticker s en 0 w') = Inl timed_out" for s en w'
  proof -
    have s1: "yf_download (test_env yf_down fred) (history w') ticker (StartEnd s en) = Inl timed_out"
      and s2: "yf_download (test_env yf_down fred) (history w' @ [YfDownload ticker (StartEnd s en)])
                 ticker (StartEnd s en) = Inl timed_out"
      by (simp_all add: yf_down_def)
    show ?thesis
      unfolding fetch_attempts_sources [OF s1 s2]
      by (subst download_attempt_raises [where err = timed_out]) (simp_all add: yf_down_def)
  qed
  then show ?thesis
    by (simp add: fetch_from_yfinance_def Let_def split: prod.split)
qed

text \<open>
  C3, as the code has it. The retry loop makes at most 3 downloads. When the first two
  attempts fail, the outcome of the third is the outcome of the fetch: its table, or its
  exception exactly as it was raised. In terms of the source: if the download raises on
  all three calls, the fetch raises the third exception unchanged, after three download
  requests; if it raises twice and then returns a non-empty table of which at least 20
  rows have no missing cell, the fetch returns that table without its incomplete rows.
\<close>

theorem fetch_attempts_three:
  "length (filter is_download (history (snd (fetch_attempts e ticker s en 0 w)))) \<le>
     length (filter is_download (history w)) + 3 \<and>
   (download_attempt e ticker s en w = (Inl err1, w1) \<longrightarrow>
    download_attempt e ticker s en
      (print (warning_sign @ ''  Retry 1 for '' @ ticker @ '': '' @ str_exc err1) w1) = (Inl err2, w2) \<longrightarrow>
    download_attempt e ticker s en
      (print (warning_sign @ ''  Retry 2 for '' @ ticker @ '': '' @ str_exc err2) w2) = (r, w3) \<longrightarrow>
    fetch_attempts e ticker s en 0 w = (r, w3)) \<and>
   (yf_download e (history w) ticker (StartEnd s en) = Inl err1 \<longrightarrow>
    yf_download e (history w @ [YfDownload ticker (StartEnd s en)]) ticker (StartEnd s en) = Inl err2 \<longrightarrow>
    yf_download e (history w @ [YfDownload ticker (StartEnd s en), YfDownload ticker (StartEnd s en)])
       ticker (StartEnd s en) = Inl err3 \<longrightarrow>
    fst (fetch_attempts e ticker s en 0 w) = Inl err3 \<and>
    history (snd (fetch_attempts e ticker s en 0 w)) =
      history w @ replicate 3 (YfDownload ticker (StartEnd s en))) \<and>
   (yf_download e (history w) ticker (StartEnd s en) = Inl err1 \<longrightarrow>
    yf_download e (history w @ [YfDownload ticker (StartEnd s en)]) ticker (StartEnd s en) = Inl err2 \<longrightarrow>
    yf_download e (history w @ [YfDownload ticker (StartEnd s en), YfDownload ticker (StartEnd s en)])
       ticker (StartEnd s en) = Inr tbl \<longrightarrow>
    \<not> df_empty tbl \<longrightarrow> 20 \<le> len (dropna tbl) \<longrightarrow>
    fst (fetch_attempts e ticker s en 0 w) = Inr (dropna tbl))"
proof (intro conjI impI)
  show "length (filter is_download (history (snd (fetch_attempts e ticker s en 0 w)))) \<le>
     length (filter is_download (history w)) + 3"
    using fetch_attempts_downloads [of 0 e ticker s en w] by simp
next
  assume "download_attempt e ticker s en w = (Inl err1, w1)"
    "download_attempt e ticker s en
      (print (warning_sign @ ''  Retry 1 for '' @ ticker @ '': '' @ str_exc err1) w1) = (Inl err2, w2)"
    "download_attempt e ticker s en
      (print (warning_sign @ ''  Retry 2 for '' @ ticker @ '': '' @ str_exc err2) w2) = (r, w3)"
  then show "fetch_attempts e ticker s en 0 w = (r, w3)" by (rule fetch_attempts_unroll)
next
  assume s1: "yf_download e (history w) ticker (StartEnd s en) = Inl err1"
    and s2: "yf_download e (history w @ [YfDownload ticker (StartEnd s en)]) ticker (StartEnd s en) = Inl err2"
    and s3: "yf_download e (history w @ [YfDownload ticker (StartEnd s en), YfDownload ticker (StartEnd s en)])
       ticker (StartEnd s en) = Inl err3"
  show "fst (fetch_attempts e ticker s en 0 w) = Inl err3"
    unfolding fetch_attempts_sources [OF s1 s2]
    by (subst download_attempt_raises [where err = err3]) (simp_all add: s3)
  show "history (snd (fetch_attempts e ticker s en 0 w)) =
      history w @ replicate 3 (YfDownload ticker (StartEnd s en))"
    unfolding fetch_attempts_sources [OF s1 s2]
    by (subst download_attempt_raises [where err = err3]) (simp_all add: s3 eval_nat_numeral)
next
  assume s1: "yf_download e (history w) ticker (StartEnd s en) = Inl err1"
    and s2: "yf_download e (history w @ [YfDownload ticker (StartEnd s en)]) ticker (StartEnd s en) = Inl err2"
    and s3: "yf_download e (history w @ [YfDownload ticker (StartEnd s en), YfDownload ticker (StartEnd s en)])
       ticker (StartEnd s en) = Inr tbl"
    and ok: "\<not> df_empty tbl" "20 \<le> len (dropna tbl)"
  show "fst (fetch_attempts e ticker s en 0 w) = Inr (dropna tbl)"
    unfolding fetch_attempts_sources [OF s1 s2]
    by (rule download_attempt_returns [OF _ ok]) (simp add: s3)
qed

theorem fetch_attempts_three_witness:
  "yf_flaky (price_table (replicate 20 100)) [] ''AAA'' (StartEnd (- 31536000) 0) = Inl timed_out \<and>
   yf_flaky (price_table (replicate 20 100)) [YfDownload ''AAA'' (StartEnd (- 31536000) 0)]
      ''AAA'' (StartEnd (- 31536000) 0) = Inl timed_out \<and>
   yf_flaky (price_table (replicate 20 100))
      [YfDownload ''AAA'' (StartEnd (- 31536000) 0), YfDownload ''AAA'' (StartEnd (- 31536000) 0)]
      ''AAA'' (StartEnd (- 31536000) 0) = Inr (price_table (replicate 20 100)) \<and>
   \<not> df_empty (price_table (replicate 20 100)) \<and>
   20 \<le> len (dropna (price_table (replicate 20 100))) \<and>
   fst (fetch_attempts (test_env (yf_flaky (price_table (replicate 20 100))) fred_down)
          ''AAA'' (- 31536000) 0 0 world0) = Inr (price_table (replicate 20 100)) \<and>
   fst (fetch_attempts (test_env yf_down fred_down) ''AAA'' (- 31536000) 0 0 world0) = Inl timed_out \<and>
   history (snd (fetch_attempts (test_env yf_down fred_down) ''AAA'' (- 31536000) 0 0 world0)) =
     replicate 3 (YfDownload ''AAA'' (StartEnd (- 31536000) 0))"
proof -
  let ?T = "price_table (replicate 20 100)"
  let ?Y = "YfDownload ''AAA'' (StartEnd (- 31536000) 0)"
  have f: "yf_flaky ?T [] ''AAA'' (StartEnd (- 31536000) 0) = Inl timed_out"
    "yf_flaky ?T [?Y] ''AAA'' (StartEnd (- 31536000) 0) = Inl timed_out"
    "yf_flaky ?T [?Y, ?Y] ''AAA'' (StartEnd (- 31536000) 0) = Inr ?T"
    by (simp_all add: yf_flaky_def)
  have t: "\<not> df_empty ?T" "20 \<le> len (dropna ?T)" by simp_all
  from fetch_attempts_three [where e = "test_env (yf_flaky ?T) fred_down" and ticker = "''AAA''"
      and s = "- 31536000" and en = 0 and w = world0 and ?err1.0 = timed_out and ?err2.0 = timed_out
      and tbl = ?T] f t
  have a: "fst (fetch_attempts (test_env (yf_flaky ?T) fred_down) ''AAA'' (- 31536000) 0 0 world0) =
           Inr ?T"
    by (simp add: world0_def)
  from fetch_attempts_three [where e = "test_env yf_down fred_down" and ticker = "''AAA''"
      and s = "- 31536000" and en = 0 and w = world0 and ?err1.0 = timed_out and ?err2.0 = timed_out
      and ?err3.0 = timed_out]
  have b: "fst (fetch_attempts (test_env yf_down fred_down) ''AAA'' (- 31536000) 0 0 world0) = Inl timed_out \<and>
   history (snd (fetch_attempts (test_env yf_down fred_down) ''AAA'' (- 31536000) 0 0 world0)) =
     replicate 3 ?Y"
    by (simp add: world0_def yf_down_def)
  from f t a b show ?thesis by simp
qed

text \<open>
  The failure that is propagated carries neither the identifier nor an attempt count:
  with the source down, the fetches of two different identifiers raise the very same
  exception, the one the source raised.
\<close>

theorem fetch_error_untagged_counterexample:
  "fst (fetch_from_yfinance (test_env yf_down fred_down) ''AAA'' ''1y'' world0) =
     Inl (SourceError ''ConnectionError'' ''timed out'') \<and>
   fst (fetch_from_yfinance (test_env yf_down fred_down) ''BBB'' ''1y'' world0) =
     Inl (SourceError ''ConnectionError'' ''timed out'')"
  by (simp add: fetch_from_yfinance_down timed_out_def)

section \<open>Properties of the batch fetch\<close>

lemma fetch_ticker_cases:
  "fetch_ticker e period validate ticker (all_data, failed, w) = (all_data', failed', w') \<Longrightarrow>
   (all_data' = all_data \<and> failed' = failed @ [ticker]) \<or>
   (\<exists>data. all_data' = AList.update ticker data all_data \<and> failed' = failed)"
  by (auto simp: fetch_ticker_def Let_def split: prod.splits sum.splits if_splits)


lemma validate_accepts:
  assumes "\<not> df_empty d" and "20 \<le> len d" and "missing_fraction d \<le> 0.1" and "valid_prices e d"
  shows "fst (validate_data_quality e (Some d) ticker w) = True"
proof -
  from assms(1,2) have pos: "0 < len d" and cols: "columns d \<noteq> []"
    by (auto simp: df_empty_def)
  from assms(3) missing_pct_gt [OF pos cols]
  have miss: "\<not> fgt (fdiv (of_count (isnull_sum d)) (of_count (len d * length (columns d)))) (Fin 0.1)"
    by simp
  show ?thesis
    using assms(1,2,4) miss
    by (simp add: validate_data_quality_def suspicious_iff Let_def
          valid_prices_def close_prices_def close_changes_def extreme_moves_def)
qed

lemma valid_prices_steady20: "valid_prices (test_env yf fred) (price_table (replicate 20 100))"
proof -
  have "close_changes (test_env yf fred) (price_table (replicate 20 100)) = replicate 19 (Fin 0)"
    using changes_steady [where p = 100 and n = 19 and yf = yf and fred = fred]
    by (simp del: replicate.simps)
  then show ?thesis
    by (simp add: valid_prices_def extreme_moves_def)
qed

lemma validate_steady20:
  "fst (validate_data_quality (test_env yf fred) (Some (price_table (replicate 20 100))) ticker w) =
     True"
  by (rule validate_accepts) (simp_all add: valid_prices_steady20)



lemma fetch_attempts_good:
  assumes "yf_download e (history w) ticker (StartEnd s en) = Inr tbl" and "\<not> df_empty tbl"
    and "20 \<le> len (dropna tbl)"
  shows "fst (fetch_attempts e ticker s en 0 w) = Inr (dropna tbl)"
proof -
  from download_attempt_returns [OF assms]
  have "download_attempt e ticker s en w = (Inr (dropna tbl), snd (download_attempt e ticker s en w))"
    by (metis prod.collapse)
  from fetch_attempts_done [OF this] show ?thesis by simp
qed







lemma fetch_result_of_loop:
  "fetch_loop e period validate (as_list tickers) ([], [],
      print (chart @ '' Fetching real-time data for: '' @ join '', '' (as_list tickers)) w) =
     (all_data, failed, w1) \<Longrightarrow>
   fst (fetch_real_time_stock_data e tickers period validate w) =
     (if all_data = []
      then Inl (Exception (cross_mark @ '' CRITICAL: No data could be fetched for any ticker''))
      else Inr all_data)"
  by (simp add: fetch_real_time_stock_data_def Let_def)



lemma fetch_up_single:
  "\<exists>w'. fetch_ticker (test_env (yf_up (price_table (replicate 20 100))) fred) period validate ticker
          (all_data, failed, w) =
     (AList.update ticker (price_table (replicate 20 100)) all_data, failed, w')"
proof -
  let ?T = "price_table (replicate 20 100)"
  let ?e = "test_env (yf_up ?T) fred"
  have "fst (fetch_from_yfinance ?e ticker period w) = Inr ?T"
    using fetch_attempts_good [of ?e _ ticker _ _ ?T]
    by (simp add: fetch_from_yfinance_def Let_def yf_up_def split: prod.split)
  then obtain w1 where f: "fetch_from_yfinance ?e ticker period w = (Inr ?T, w1)"
    by (cases "fetch_from_yfinance ?e ticker period w") simp
  obtain b w2 where v: "validate_data_quality ?e (Some ?T) ticker w1 = (b, w2)"
    by (cases "validate_data_quality ?e (Some ?T) ticker w1")
  with validate_steady20 [where yf = "yf_up ?T" and fred = fred and ticker = ticker and w = w1]
  have b: "b = True" by simp
  from f v b show ?thesis
    by (cases validate) (simp_all add: fetch_ticker_def Let_def)
qed




text \<open>
  C10. A single string is treated as the one-element list holding it: the two calls give
  the same result and the same world, and a mapping that is returned has the string as
  its only key.
\<close>

theorem fetch_single_string:
  "fetch_real_time_stock_data e (Single s) period validate w =
   fetch_real_time_stock_data e (Many [s]) period validate w \<and>
   (\<forall>m. fst (fetch_real_time_stock_data e (Single s) period validate w) = Inr m \<longrightarrow>
        map fst m = [s])"
proof -
  let ?w0 = "print (chart @ '' Fetching real-time data for: '' @ s) w"
  obtain a f w1 where l: "fetch_ticker e period validate s ([], [], ?w0) = (a, f, w1)"
    by (cases "fetch_ticker e period validate s ([], [], ?w0)")
  from fetch_ticker_cases [OF l] have "a = [] \<or> (\<exists>data. a = [(s, data)])" by auto
  with l show ?thesis
    by (auto simp: fetch_real_time_stock_data_def Let_def)
qed

theorem fetch_single_string_witness:
  "fetch_real_time_stock_data (test_env (yf_up (price_table (replicate 20 100))) fred_down)
     (Single ''AAA'') ''1y'' True world0 =
   fetch_real_time_stock_data (test_env (yf_up (price_table (replicate 20 100))) fred_down)
     (Many [''AAA'']) ''1y'' True world0 \<and>
   fst (fetch_real_time_stock_data (test_env (yf_up (price_table (replicate 20 100))) fred_down)
     (Single ''AAA'') ''1y'' True world0) = Inr [(''AAA'', price_table (replicate 20 100))] \<and>
   map fst [(''AAA'', price_table (replicate 20 100))] = [''AAA'']"
proof -
  let ?T = "price_table (replicate 20 100)"
  let ?e = "test_env (yf_up ?T) fred_down"
  let ?w0 = "print (chart @ '' Fetching real-time data for: AAA'') world0"
  obtain w' where l: "fetch_ticker ?e ''1y'' True ''AAA'' ([], [], ?w0) = ([(''AAA'', ?T)], [], w')"
    using fetch_up_single [of fred_down "''1y''" True "''AAA''" "[]" "[]" ?w0] by auto
  then have r: "fst (fetch_real_time_stock_data ?e (Single ''AAA'') ''1y'' True world0) =
      Inr [(''AAA'', ?T)]"
    using fetch_result_of_loop [where e = ?e and period = "''1y''" and validate = True
        and tickers = "Single ''AAA''" and w = world0] by simp
  from fetch_single_string [of ?e "''AAA''" "''1y''" True world0] r
  show ?thesis by simp
qed

section \<open>Properties of the risk-free rate\<close>

lemma irx_method_usable:
  assumes "yf_download e (history w) ''^IRX'' (Period ''5d'') = Inr tbl" and "\<not> df_empty tbl"
    and "''Close'' \<in> set (columns tbl)" and "last (series tbl ''Close'') = Fin v" and "0 < v"
  shows "\<exists>w'. irx_method e w = (Some (Fin (v / 100)), w') \<and>
              history w' = history w @ [YfDownload ''^IRX'' (Period ''5d'')]"
  using assms by (simp add: irx_method_def yf_download_call_def Let_def)

lemma fred_method_no_key:
  "\<not> truthy (fred_api_key self) \<Longrightarrow> fred_method e self series_id label w = (None, w)"
  by (simp add: fred_method_def)

lemma fred_method_value:
  assumes "fred_api_key self = Some key" and "key \<noteq> []"
    and "fred_get e (history w) series_id key 10 = Inr (FloatText v # obs)"
  shows "fst (fred_method e self series_id label w) = Some (fdiv v (Fin 100))"
  using assms by (simp add: fred_method_def fetch_from_fred_def fred_get_call_def)

lemma fred_method_value_history:
  assumes "fred_api_key self = Some key" and "key \<noteq> []"
    and "fred_get e (history w) series_id key 10 = Inr (FloatText v # obs)"
  shows "\<exists>w'. fred_method e self series_id label w = (Some (fdiv v (Fin 100)), w') \<and>
              history w' = history w @ [FredGet series_id key 10]"
  using assms by (simp add: fred_method_def fetch_from_fred_def fred_get_call_def)

text \<open>
  C2 fails on the code, by the defect of C4. The methods are tried in the order FRED
  \<open>DGS3MO\<close>, Yahoo \<open>^IRX\<close>, FRED \<open>DGS1MO\<close> and the value is divided by 100, but a FRED
  method ends the call with any value that is not \<open>None\<close>, usable or not. With a
  credential, a FRED observation of 0 (or \<open>NaN\<close>) and a last \<open>^IRX\<close> close of 4.5, the call
  returns 0 (or \<open>NaN\<close>) after the single \<open>DGS3MO\<close> request: the \<open>^IRX\<close> download, which
  holds the first usable value, is never made. In the same environment without a
  credential the call returns 0.045 after the single \<open>^IRX\<close> download, as the claim says.
\<close>

theorem risk_free_rate_stops_at_unusable:
  "fst (get_real_time_risk_free_rate (test_env (yf_up (price_table [4.5])) (fred_up (Fin 0)))
          with_key world0) = Inr (Fin 0) \<and>
   history (snd (get_real_time_risk_free_rate (test_env (yf_up (price_table [4.5])) (fred_up (Fin 0)))
          with_key world0)) = [FredGet ''DGS3MO'' ''KEY'' 10] \<and>
   fst (get_real_time_risk_free_rate (test_env (yf_up (price_table [4.5])) (fred_up NaN))
          with_key world0) = Inr NaN \<and>
   history (snd (get_real_time_risk_free_rate (test_env (yf_up (price_table [4.5])) (fred_up NaN))
          with_key world0)) = [FredGet ''DGS3MO'' ''KEY'' 10] \<and>
   fst (get_real_time_risk_free_rate (test_env (yf_up (price_table [4.5])) (fred_up (Fin 0)))
          no_key world0) = Inr (Fin 0.045) \<and>
   history (snd (get_real_time_risk_free_rate (test_env (yf_up (price_table [4.5])) (fred_up (Fin 0)))
          no_key world0)) = [YfDownload ''^IRX'' (Period ''5d'')]"
proof -
  let ?T = "price_table [4.5]"
  let ?w0 = "print (arrows @ '' Fetching real-time risk-free rate...'') world0"
  have keyed: "fst (get_real_time_risk_free_rate (test_env (yf_up ?T) (fred_up v)) with_key world0) =
          Inr (fdiv v (Fin 100)) \<and>
        history (snd (get_real_time_risk_free_rate (test_env (yf_up ?T) (fred_up v)) with_key world0)) =
          [FredGet ''DGS3MO'' ''KEY'' 10]" for v
  proof -
    have "\<exists>w'. fred_method (test_env (yf_up ?T) (fred_up v)) with_key ''DGS3MO'' ''FRED'' ?w0 =
            (Some (fdiv v (Fin 100)), w') \<and>
          history w' = history ?w0 @ [FredGet ''DGS3MO'' ''KEY'' 10]"
      by (rule fred_method_value_history [where obs = "[]"])
         (simp_all add: with_key_def fred_up_def)
    then obtain w' where
      m: "fred_method (test_env (yf_up ?T) (fred_up v)) with_key ''DGS3MO'' ''FRED'' ?w0 =
            (Some (fdiv v (Fin 100)), w')"
      and h: "history w' = history ?w0 @ [FredGet ''DGS3MO'' ''KEY'' 10]" by blast
    from m h show ?thesis
      by (simp add: get_real_time_risk_free_rate_def Let_def world0_def)
  qed
  have "\<exists>w'. irx_method (test_env (yf_up ?T) (fred_up (Fin 0))) ?w0 = (Some (Fin (4.5 / 100)), w') \<and>
          history w' = history ?w0 @ [YfDownload ''^IRX'' (Period ''5d'')]"
    by (rule irx_method_usable [where tbl = ?T]) (simp_all add: yf_up_def)
  then obtain w' where
    i: "irx_method (test_env (yf_up ?T) (fred_up (Fin 0))) ?w0 = (Some (Fin (4.5 / 100)), w')"
    and h: "history w' = history ?w0 @ [YfDownload ''^IRX'' (Period ''5d'')]" by blast
  have nk: "\<not> truthy (fred_api_key no_key)" by (simp add: no_key_def)
  have unkeyed: "fst (get_real_time_risk_free_rate (test_env (yf_up ?T) (fred_up (Fin 0))) no_key world0) =
          Inr (Fin 0.045) \<and>
        history (snd (get_real_time_risk_free_rate (test_env (yf_up ?T) (fred_up (Fin 0))) no_key world0)) =
          [YfDownload ''^IRX'' (Period ''5d'')]"
    using i h
    by (simp add: get_real_time_risk_free_rate_def Let_def fred_method_no_key [OF nk] world0_def)
  from keyed [of "Fin 0"] keyed [of NaN] unkeyed show ?thesis by simp
qed

text \<open>
  C4 fails on the code. The Yahoo method returns its value only if it is not \<open>NaN\<close> and
  greater than 0; the two FRED methods return whatever \<open>_fetch_from_fred\<close> gave that is
  not \<open>None\<close>. With a credential and a FRED observation of 0, of -0.5 or of \<open>NaN\<close>, the
  function returns 0, -0.005 and \<open>NaN\<close>.
\<close>

theorem risk_free_rate_fred_unchecked:
  "fst (get_real_time_risk_free_rate (test_env yf_down (fred_up (Fin 0))) with_key world0) =
     Inr (Fin 0) \<and>
   fst (get_real_time_risk_free_rate (test_env yf_down (fred_up (Fin (- 0.5)))) with_key world0) =
     Inr (Fin (- 0.005)) \<and>
   fst (get_real_time_risk_free_rate (test_env yf_down (fred_up NaN)) with_key world0) = Inr NaN"
proof -
  have "fst (get_real_time_risk_free_rate (test_env yf_down (fred_up v)) with_key world0) =
          Inr (fdiv v (Fin 100))" for v
  proof -
    have "fst (fred_method (test_env yf_down (fred_up v)) with_key ''DGS3MO'' ''FRED'' w) =
            Some (fdiv v (Fin 100))" for w
      by (rule fred_method_value [where key = "''KEY''" and obs = "[]"])
         (simp_all add: with_key_def fred_up_def)
    then obtain w1 where "fred_method (test_env yf_down (fred_up v)) with_key ''DGS3MO'' ''FRED''
          (print (arrows @ '' Fetching real-time risk-free rate...'') world0) =
        (Some (fdiv v (Fin 100)), w1)"
      by (metis prod.collapse)
    then show ?thesis
      by (simp add: get_real_time_risk_free_rate_def Let_def)
  qed
  from this [of "Fin 0"] this [of "Fin (- 0.5)"] this [of NaN] show ?thesis by simp
qed

section \<open>Properties of the health check\<close>

lemma sublist_append_disjoint:
  assumes "xs \<noteq> []" and "set xs \<inter> set s = {}"
  shows "sublist xs (m @ s) \<longleftrightarrow> sublist xs m"
proof
  assume "sublist xs (m @ s)"
  then consider "sublist xs m" | "sublist xs s"
    | xs1 xs2 where "xs = xs1 @ xs2" "suffix xs1 m" "prefix xs2 s"
    by (auto simp: sublist_append)
  then show "sublist xs m"
  proof cases
    case 1
    then show ?thesis .
  next
    case 2
    then have "set xs \<subseteq> set s" by (rule set_mono_sublist)
    with assms show ?thesis by (cases xs) auto
  next
    case 3
    show ?thesis
    proof (cases xs2)
      case Nil
      with 3 show ?thesis by (auto simp: suffix_imp_sublist)
    next
      case (Cons x xs2')
      with 3(3) have "x \<in> set s" by (auto simp: prefix_def)
      moreover from Cons 3(1) have "x \<in> set xs" by simp
      ultimately show ?thesis using assms(2) by blast
    qed
  qed
next
  assume "sublist xs m"
  then show "sublist xs (m @ s)" by (auto simp: sublist_append)
qed

lemma error_status_lacks:
  "\<not> sublist ''HEALTHY'' (str_exc err) \<Longrightarrow> \<not> sublist ''HEALTHY'' (error_status err)"
proof -
  assume n: "\<not> sublist ''HEALTHY'' (str_exc err)"
  have "sublist ''HEALTHY'' (str_exc err @ '' '' @ cross_mark) \<longleftrightarrow> sublist ''HEALTHY'' (str_exc err)"
    by (rule sublist_append_disjoint) (simp_all add: cross_mark_def)
  with n show ?thesis
    by (simp add: error_status_def sublist_Cons_right)
qed

lemma healthy_status_contains: "sublist ''HEALTHY'' healthy_status"
  by (simp add: healthy_status_def)

lemma no_key_status_lacks: "\<not> sublist ''HEALTHY'' (''NO API KEY '' @ warning_sign)"
  by (simp add: warning_sign_def sublist_Cons_right)

lemma no_data_status_lacks: "\<not> sublist ''HEALTHY'' (''NO DATA '' @ cross_mark)"
  by (simp add: cross_mark_def sublist_Cons_right)

lemma determine_overall_status_two:
  "determine_overall_status [(a, x), (b, y)] =
     (if sublist ''HEALTHY'' x \<and> sublist ''HEALTHY'' y then ''HEALTHY '' @ check_mark
      else if sublist ''HEALTHY'' x \<or> sublist ''HEALTHY'' y then ''DEGRADED '' @ warning_sign
      else ''CRITICAL '' @ cross_mark)"
  by (simp add: determine_overall_status_def healthy_sources_def Let_def)

text \<open>Each probe returns a status and never raises.\<close>

lemma test_yfinance_status:
  "test_yfinance e w =
     (Inr (case fst (yf_download_call e ''AAPL'' (Period ''5d'') w) of
             Inl err \<Rightarrow> error_status err
           | Inr test_data \<Rightarrow>
               if \<not> df_empty test_data then healthy_status else ''NO DATA '' @ cross_mark),
      snd (yf_download_call e ''AAPL'' (Period ''5d'') w))"
  by (simp add: test_yfinance_def try_except_def then_do_def returns_def
        split: prod.split sum.split)

lemma test_fred_status:
  "test_fred e self w =
     (if truthy (fred_api_key self)
      then (Inr (case fst (fetch_from_fred e self ''DGS3MO'' 1 w) of
                   Inl err \<Rightarrow> error_status err
                 | Inr fred_test \<Rightarrow>
                     if fred_test \<noteq> None then healthy_status else ''NO DATA '' @ cross_mark),
            snd (fetch_from_fred e self ''DGS3MO'' 1 w))
      else (Inr (''NO API KEY '' @ warning_sign), w))"
  by (simp add: test_fred_def try_except_def then_do_def returns_def
        split: prod.split sum.split)

lemma test_risk_free_rate_status:
  "test_risk_free_rate e self w =
     (Inr (case fst (get_real_time_risk_free_rate e self w) of
             Inl err \<Rightarrow> error_status err
           | Inr rf_rate \<Rightarrow>
               format_float e ''.4f'' rf_rate @ '' ('' @
               format_float e ''.2f'' (fmul rf_rate (Fin 100)) @ ''%) '' @ check_mark),
      snd (get_real_time_risk_free_rate e self w))"
  by (simp add: test_risk_free_rate_def try_except_def then_do_def returns_def
        split: prod.split sum.split)

lemma test_market_data_status:
  "test_market_data e w =
     (Inr (case fst (get_real_time_market_data e ''1mo'' w) of
             Inl err \<Rightarrow> error_status err
           | Inr market_returns \<Rightarrow> str_nat (length market_returns) @ '' returns '' @ check_mark),
      snd (get_real_time_market_data e ''1mo'' w))"
  by (simp add: test_market_data_def try_except_def then_do_def returns_def
        split: prod.split sum.split)

lemma test_sample_data_status:
  "test_sample_data e w =
     (Inr (case fst (fetch_real_time_stock_data e (Many sample_tickers) ''1mo'' True w) of
             Inl err \<Rightarrow> Sample_error (error_status err)
           | Inr sample_data \<Rightarrow>
               Per_ticker [(''AAPL'', data_quality sample_data ''AAPL''),
                           (''MSFT'', data_quality sample_data ''MSFT''),
                           (''GOOGL'', data_quality sample_data ''GOOGL'')]),
      snd (fetch_real_time_stock_data e (Many sample_tickers) ''1mo'' True w))"
  by (simp add: test_sample_data_def try_except_def then_do_def returns_def sample_tickers_def
        split: prod.split sum.split)

lemma yfinance_status_healthy:
  assumes "\<not> names_healthy (fst (yf_download_call e ''AAPL'' (Period ''5d'') w))"
    and "test_yfinance e w = (Inr ys, w2)"
  shows "sublist ''HEALTHY'' ys \<longleftrightarrow> yfinance_succeeded e w"
  using assms healthy_status_contains no_data_status_lacks
  by (auto simp: test_yfinance_status yfinance_succeeded_def names_healthy_def
        dest: error_status_lacks split: sum.splits)

lemma fred_status_healthy:
  assumes "\<not> names_healthy (fst (fetch_from_fred e self ''DGS3MO'' 1 w))"
    and "test_fred e self w = (Inr fs, w3)"
  shows "sublist ''HEALTHY'' fs \<longleftrightarrow> fred_succeeded e self w"
  using assms healthy_status_contains no_data_status_lacks no_key_status_lacks
  by (auto simp: test_fred_status fred_succeeded_def names_healthy_def
        dest: error_status_lacks split: sum.splits if_splits)


lemma then_do_returns: "first w = (Inr v, w1) \<Longrightarrow> then_do first rest w = rest v w1"
  by (simp add: then_do_def)

lemma health_check_composed:
  assumes y: "test_yfinance e (snd (datetime_now e
              (print (hospital @ '' Running system health check...'') w))) = (Inr ys, w2)"
    and f: "test_fred e self w2 = (Inr fs, w3)"
    and rf: "test_risk_free_rate e self w3 = (Inr rs, w4)"
    and m: "test_market_data e w4 = (Inr ms, w5)"
    and sa: "test_sample_data e w5 = (Inr ss, w6)"
  shows "\<exists>r w'. system_health_check e self w = (Inr r, w') \<and>
           data_sources r = [(''yfinance'', ys), (''fred'', fs)] \<and>
           sample_data_quality r = ss \<and> risk_free_rate r = Some rs \<and> market_data r = Some ms \<and>
           overall_status r = determine_overall_status [(''yfinance'', ys), (''fred'', fs)]"
proof -
  let ?w0 = "print (hospital @ '' Running system health check...'') w"
  let ?r = "\<lparr>timestamp = isoformat e (fst (datetime_now e ?w0)),
             data_sources = [(''yfinance'', ys), (''fred'', fs)],
             sample_data_quality = ss,
             risk_free_rate = Some rs,
             market_data = Some ms,
             overall_status = determine_overall_status [(''yfinance'', ys), (''fred'', fs)]\<rparr>"
  have s0: "say (hospital @ '' Running system health check...'') w = (Inr (), ?w0)"
    by (simp add: say_def)
  have s1: "now_action e ?w0 = (Inr (fst (datetime_now e ?w0)), snd (datetime_now e ?w0))"
    by (simp add: now_action_def split: prod.split)
  have s7: "print_report ?r w6 = (Inr (), fold print (report_lines ?r) w6)"
    by (simp add: print_report_def)
  note steps =
    then_do_returns [where first = "say (hospital @ '' Running system health check...'')", OF s0]
    then_do_returns [where first = "now_action e", OF s1]
    then_do_returns [where first = "test_yfinance e", OF y]
    then_do_returns [where first = "test_fred e self", OF f]
    then_do_returns [where first = "test_risk_free_rate e self", OF rf]
    then_do_returns [where first = "test_market_data e", OF m]
    then_do_returns [where first = "test_sample_data e", OF sa]
    then_do_returns [where first = "print_report ?r", OF s7]
  have "system_health_check e self w = (Inr ?r, fold print (report_lines ?r) w6)"
    unfolding system_health_check_def
    by (simp only: steps Let_def returns_def)
  then show ?thesis by simp
qed

lemma yf_up_probe:
  "\<not> df_empty tbl \<Longrightarrow> yfinance_succeeded (test_env (yf_up tbl) fred) w"
  "\<not> names_healthy (fst (yf_download_call (test_env (yf_up tbl) fred) ''AAPL'' (Period ''5d'') w))"
  "fst (yf_download_call (test_env (yf_up tbl) fred) ''AAPL'' (Period ''5d'') w) = Inr tbl"
  by (simp_all add: yfinance_succeeded_def names_healthy_def yf_download_call_def yf_up_def)

lemma no_key_probe:
  "\<not> fred_succeeded e no_key w"
  "\<not> names_healthy (fst (fetch_from_fred e no_key ''DGS3MO'' 1 w))"
  by (simp_all add: fred_succeeded_def names_healthy_def fetch_from_fred_def no_key_def
        sublist_Cons_right)

lemma fred_up_probe:
  "fred_succeeded (test_env yf (fred_up v)) with_key w"
  "\<not> names_healthy (fst (fetch_from_fred (test_env yf (fred_up v)) with_key ''DGS3MO'' 1 w))"
  "fst (fetch_from_fred (test_env yf (fred_up v)) with_key ''DGS3MO'' 1 w) = Inr (Some v)"
  by (simp_all add: fred_succeeded_def names_healthy_def fetch_from_fred_def with_key_def
        fred_get_call_def fred_up_def)

text \<open>
  C8, as the code has it. The health check never raises: each of its five probes returns
  a status, and the function returns a report. A probe whose call raises is rendered as
  the \<open>ERROR\<close> status with the message of the exception: the yfinance download, the FRED
  fetch (run only with a credential), the risk-free rate, the market data and the sample
  fetch. A probe whose call returns is rendered by what it returned: a source as
  \<open>HEALTHY\<close> or \<open>NO DATA\<close>, the rate and the market data by their values, the sample
  fetch by one status for each of the three sample tickers. The two entries of
  \<open>data_sources\<close>, yfinance and fred, are both counted: provided no caught exception has
  the text \<open>HEALTHY\<close> in its own message, the overall status is \<open>HEALTHY\<close> when both
  probes succeeded, \<open>DEGRADED\<close> when exactly one did and \<open>CRITICAL\<close> when none did.
  Without a credential the fred entry is \<open>NO API KEY\<close> and counts as not succeeded, so the
  overall status is then never \<open>HEALTHY\<close>.
\<close>

theorem health_check_overall_status:
  "\<exists>r w' w1 w2 w3 w4 w5 w6 ys fs rs ms ss.
     system_health_check e self w = (Inr r, w') \<and>
     w1 = snd (datetime_now e (print (hospital @ '' Running system health check...'') w)) \<and>
     test_yfinance e w1 = (Inr ys, w2) \<and>
     test_fred e self w2 = (Inr fs, w3) \<and>
     test_risk_free_rate e self w3 = (Inr rs, w4) \<and>
     test_market_data e w4 = (Inr ms, w5) \<and>
     test_sample_data e w5 = (Inr ss, w6) \<and>
     data_sources r = [(''yfinance'', ys), (''fred'', fs)] \<and>
     risk_free_rate r = Some rs \<and> market_data r = Some ms \<and> sample_data_quality r = ss \<and>
     ys = (case fst (yf_download_call e ''AAPL'' (Period ''5d'') w1) of
             Inl err \<Rightarrow> ''ERROR: '' @ str_exc err @ '' '' @ cross_mark
           | Inr test_data \<Rightarrow>
               if \<not> df_empty test_data then ''HEALTHY '' @ check_mark
               else ''NO DATA '' @ cross_mark) \<and>
     fs = (if truthy (fred_api_key self)
           then (case fst (fetch_from_fred e self ''DGS3MO'' 1 w2) of
                   Inl err \<Rightarrow> ''ERROR: '' @ str_exc err @ '' '' @ cross_mark
                 | Inr fred_test \<Rightarrow>
                     if fred_test \<noteq> None then ''HEALTHY '' @ check_mark
                     else ''NO DATA '' @ cross_mark)
           else ''NO API KEY '' @ warning_sign) \<and>
     rs = (case fst (get_real_time_risk_free_rate e self w3) of
             Inl err \<Rightarrow> ''ERROR: '' @ str_exc err @ '' '' @ cross_mark
           | Inr rf_rate \<Rightarrow>
               format_float e ''.4f'' rf_rate @ '' ('' @
               format_float e ''.2f'' (fmul rf_rate (Fin 100)) @ ''%) '' @ check_mark) \<and>
     ms = (case fst (get_real_time_market_data e ''1mo'' w4) of
             Inl err \<Rightarrow> ''ERROR: '' @ str_exc err @ '' '' @ cross_mark
           | Inr market_returns \<Rightarrow>
               str_nat (length market_returns) @ '' returns '' @ check_mark) \<and>
     ss = (case fst (fetch_real_time_stock_data e (Many sample_tickers) ''1mo'' True w5) of
             Inl err \<Rightarrow> Sample_error (''ERROR: '' @ str_exc err @ '' '' @ cross_mark)
           | Inr sample_data \<Rightarrow>
               Per_ticker [(''AAPL'', data_quality sample_data ''AAPL''),
                           (''MSFT'', data_quality sample_data ''MSFT''),
                           (''GOOGL'', data_quality sample_data ''GOOGL'')]) \<and>
     (\<not> names_healthy (fst (yf_download_call e ''AAPL'' (Period ''5d'') w1)) \<longrightarrow>
      \<not> names_healthy (fst (fetch_from_fred e self ''DGS3MO'' 1 w2)) \<longrightarrow>
        overall_status r =
          (if yfinance_succeeded e w1 \<and> fred_succeeded e self w2 then ''HEALTHY '' @ check_mark
           else if yfinance_succeeded e w1 \<or> fred_succeeded e self w2
           then ''DEGRADED '' @ warning_sign
           else ''CRITICAL '' @ cross_mark)) \<and>
     (\<not> truthy (fred_api_key self) \<longrightarrow>
        \<not> fred_succeeded e self w2 \<and> overall_status r \<noteq> ''HEALTHY '' @ check_mark)"
proof -
  define w1 where "w1 = snd (datetime_now e (print (hospital @ '' Running system health check...'') w))"
  obtain ys w2 where y: "test_yfinance e w1 = (Inr ys, w2)"
    by (simp add: test_yfinance_status)
  obtain fs w3 where f: "test_fred e self w2 = (Inr fs, w3)"
    by (cases "truthy (fred_api_key self)") (simp_all add: test_fred_status)
  obtain rs w4 where rf: "test_risk_free_rate e self w3 = (Inr rs, w4)"
    by (simp add: test_risk_free_rate_status)
  obtain ms w5 where m: "test_market_data e w4 = (Inr ms, w5)"
    by (simp add: test_market_data_status)
  obtain ss w6 where sa: "test_sample_data e w5 = (Inr ss, w6)"
    by (simp add: test_sample_data_status)
  from health_check_composed [OF y [unfolded w1_def] f rf m sa] obtain r w' where
    r: "system_health_check e self w = (Inr r, w')"
    and ds: "data_sources r = [(''yfinance'', ys), (''fred'', fs)]"
    and fields: "risk_free_rate r = Some rs" "market_data r = Some ms" "sample_data_quality r = ss"
    and ov: "overall_status r = determine_overall_status [(''yfinance'', ys), (''fred'', fs)]"
    by blast
  have ye: "ys = (case fst (yf_download_call e ''AAPL'' (Period ''5d'') w1) of
             Inl err \<Rightarrow> ''ERROR: '' @ str_exc err @ '' '' @ cross_mark
           | Inr test_data \<Rightarrow>
               if \<not> df_empty test_data then ''HEALTHY '' @ check_mark
               else ''NO DATA '' @ cross_mark)"
    using y by (auto simp: test_yfinance_status error_status_def healthy_status_def split: sum.splits)
  have fe: "fs = (if truthy (fred_api_key self)
           then (case fst (fetch_from_fred e self ''DGS3MO'' 1 w2) of
                   Inl err \<Rightarrow> ''ERROR: '' @ str_exc err @ '' '' @ cross_mark
                 | Inr fred_test \<Rightarrow>
                     if fred_test \<noteq> None then ''HEALTHY '' @ check_mark
                     else ''NO DATA '' @ cross_mark)
           else ''NO API KEY '' @ warning_sign)"
    using f
    by (auto simp: test_fred_status error_status_def healthy_status_def split: sum.splits if_splits)
  have re: "rs = (case fst (get_real_time_risk_free_rate e self w3) of
             Inl err \<Rightarrow> ''ERROR: '' @ str_exc err @ '' '' @ cross_mark
           | Inr rf_rate \<Rightarrow>
               format_float e ''.4f'' rf_rate @ '' ('' @
               format_float e ''.2f'' (fmul rf_rate (Fin 100)) @ ''%) '' @ check_mark)"
    using rf by (auto simp: test_risk_free_rate_status error_status_def split: sum.splits)
  have me: "ms = (case fst (get_real_time_market_data e ''1mo'' w4) of
             Inl err \<Rightarrow> ''ERROR: '' @ str_exc err @ '' '' @ cross_mark
           | Inr market_returns \<Rightarrow>
               str_nat (length market_returns) @ '' returns '' @ check_mark)"
    using m by (auto simp: test_market_data_status error_status_def split: sum.splits)
  have se: "ss = (case fst (fetch_real_time_stock_data e (Many sample_tickers) ''1mo'' True w5) of
             Inl err \<Rightarrow> Sample_error (''ERROR: '' @ str_exc err @ '' '' @ cross_mark)
           | Inr sample_data \<Rightarrow>
               Per_ticker [(''AAPL'', data_quality sample_data ''AAPL''),
                           (''MSFT'', data_quality sample_data ''MSFT''),
                           (''GOOGL'', data_quality sample_data ''GOOGL'')])"
    using sa by (auto simp: test_sample_data_status error_status_def split: sum.splits)
  have overall: "\<not> names_healthy (fst (yf_download_call e ''AAPL'' (Period ''5d'') w1)) \<longrightarrow>
      \<not> names_healthy (fst (fetch_from_fred e self ''DGS3MO'' 1 w2)) \<longrightarrow>
        overall_status r =
          (if yfinance_succeeded e w1 \<and> fred_succeeded e self w2 then ''HEALTHY '' @ check_mark
           else if yfinance_succeeded e w1 \<or> fred_succeeded e self w2
           then ''DEGRADED '' @ warning_sign
           else ''CRITICAL '' @ cross_mark)"
  proof (intro impI)
    assume a: "\<not> names_healthy (fst (yf_download_call e ''AAPL'' (Period ''5d'') w1))"
      and b: "\<not> names_healthy (fst (fetch_from_fred e self ''DGS3MO'' 1 w2))"
    show "overall_status r =
          (if yfinance_succeeded e w1 \<and> fred_succeeded e self w2 then ''HEALTHY '' @ check_mark
           else if yfinance_succeeded e w1 \<or> fred_succeeded e self w2
           then ''DEGRADED '' @ warning_sign
           else ''CRITICAL '' @ cross_mark)"
      unfolding ov determine_overall_status_two
        yfinance_status_healthy [OF a y] fred_status_healthy [OF b f] ..
  qed
  have nokey: "\<not> truthy (fred_api_key self) \<longrightarrow>
        \<not> fred_succeeded e self w2 \<and> overall_status r \<noteq> ''HEALTHY '' @ check_mark"
  proof
    assume k: "\<not> truthy (fred_api_key self)"
    with f have fs: "fs = ''NO API KEY '' @ warning_sign" by (simp add: test_fred_status)
    from k have nf: "\<not> fred_succeeded e self w2" by (simp add: fred_succeeded_def)
    have "\<not> sublist ''HEALTHY'' fs" unfolding fs by (rule no_key_status_lacks)
    then have "overall_status r \<noteq> ''HEALTHY '' @ check_mark"
      unfolding ov determine_overall_status_two
      by (simp add: warning_sign_def check_mark_def cross_mark_def)
    with nf show "\<not> fred_succeeded e self w2 \<and> overall_status r \<noteq> ''HEALTHY '' @ check_mark"
      by blast
  qed
  from r w1_def y f rf m sa ds fields ye fe re me se overall nokey
  show ?thesis by blast
qed

theorem health_check_overall_status_witness:
  "\<not> truthy (fred_api_key no_key) \<and>
   yfinance_succeeded (test_env (yf_up (price_table (replicate 20 100))) fred_down)
     (snd (datetime_now (test_env (yf_up (price_table (replicate 20 100))) fred_down)
        (print (hospital @ '' Running system health check...'') world0))) \<and>
   \<not> isl (fst (system_health_check (test_env (yf_up (price_table (replicate 20 100))) fred_down)
                 no_key world0)) \<and>
   data_sources (projr (fst (system_health_check
       (test_env (yf_up (price_table (replicate 20 100))) fred_down) no_key world0))) =
     [(''yfinance'', ''HEALTHY '' @ check_mark), (''fred'', ''NO API KEY '' @ warning_sign)] \<and>
   overall_status (projr (fst (system_health_check
       (test_env (yf_up (price_table (replicate 20 100))) fred_down) no_key world0))) =
     ''DEGRADED '' @ warning_sign \<and>
   truthy (fred_api_key with_key) \<and>
   \<not> isl (fst (system_health_check
       (test_env (yf_up (price_table (replicate 20 100))) (fred_up (Fin 5))) with_key world0)) \<and>
   data_sources (projr (fst (system_health_check
       (test_env (yf_up (price_table (replicate 20 100))) (fred_up (Fin 5))) with_key world0))) =
     [(''yfinance'', ''HEALTHY '' @ check_mark), (''fred'', ''HEALTHY '' @ check_mark)] \<and>
   overall_status (projr (fst (system_health_check
       (test_env (yf_up (price_table (replicate 20 100))) (fred_up (Fin 5))) with_key world0))) =
     ''HEALTHY '' @ check_mark \<and>
   \<not> isl (fst (system_health_check (test_env yf_down fred_down) no_key world0)) \<and>
   data_sources (projr (fst (system_health_check (test_env yf_down fred_down) no_key world0))) =
     [(''yfinance'', ''ERROR: timed out '' @ cross_mark), (''fred'', ''NO API KEY '' @ warning_sign)] \<and>
   overall_status (projr (fst (system_health_check (test_env yf_down fred_down) no_key world0))) =
     ''CRITICAL '' @ cross_mark"
proof -
  let ?T = "price_table (replicate 20 100)"
  let ?e1 = "test_env (yf_up ?T) fred_down"
  let ?e2 = "test_env (yf_up ?T) (fred_up (Fin 5))"
  let ?e3 = "test_env yf_down fred_down"
  have t: "\<not> df_empty ?T" by simp
  have k: "\<not> truthy (fred_api_key no_key)" "truthy (fred_api_key with_key)"
    by (simp_all add: no_key_def with_key_def)
  have d3: "\<not> yfinance_succeeded ?e3 w"
    "\<not> names_healthy (fst (yf_download_call ?e3 ''AAPL'' (Period ''5d'') w))"
    "fst (yf_download_call ?e3 ''AAPL'' (Period ''5d'') w) = Inl timed_out" for w
    by (simp_all add: yfinance_succeeded_def names_healthy_def yf_download_call_def yf_down_def
          timed_out_def sublist_Cons_right)
  from health_check_overall_status [of ?e1 no_key world0] k(1)
       yf_up_probe(1) [OF t, of fred_down] yf_up_probe(2,3) [of ?T fred_down] no_key_probe [of ?e1]
  t
  have a: "\<not> isl (fst (system_health_check ?e1 no_key world0)) \<and>
     data_sources (projr (fst (system_health_check ?e1 no_key world0))) =
       [(''yfinance'', ''HEALTHY '' @ check_mark), (''fred'', ''NO API KEY '' @ warning_sign)] \<and>
     overall_status (projr (fst (system_health_check ?e1 no_key world0))) =
       ''DEGRADED '' @ warning_sign"
    by (elim exE conjE) simp
  from health_check_overall_status [of ?e2 with_key world0]
       yf_up_probe(1) [OF t, of "fred_up (Fin 5)"] yf_up_probe(2,3) [of ?T "fred_up (Fin 5)"]
       fred_up_probe [of "yf_up ?T" "Fin 5"] k(2) t
  have b: "\<not> isl (fst (system_health_check ?e2 with_key world0)) \<and>
     data_sources (projr (fst (system_health_check ?e2 with_key world0))) =
       [(''yfinance'', ''HEALTHY '' @ check_mark), (''fred'', ''HEALTHY '' @ check_mark)] \<and>
     overall_status (projr (fst (system_health_check ?e2 with_key world0))) =
       ''HEALTHY '' @ check_mark"
    by (elim exE conjE) simp
  from health_check_overall_status [of ?e3 no_key world0] k(1) d3 no_key_probe [of ?e3]
  have c: "\<not> isl (fst (system_health_check ?e3 no_key world0)) \<and>
     data_sources (projr (fst (system_health_check ?e3 no_key world0))) =
       [(''yfinance'', ''ERROR: timed out '' @ cross_mark), (''fred'', ''NO API KEY '' @ warning_sign)] \<and>
     overall_status (projr (fst (system_health_check ?e3 no_key world0))) =
       ''CRITICAL '' @ cross_mark"
    by (elim exE conjE) (simp add: timed_out_def)
  from a b c k yf_up_probe(1) [OF t, of fred_down] show ?thesis by simp
qed

text \<open>A run without a credential, from the status of the yfinance probe.\<close>

lemma health_check_no_key_run:
  assumes y: "test_yfinance e
                (snd (datetime_now e (print (hospital @ '' Running system health check...'') w))) =
              (Inr ys, w2)"
  shows "\<exists>r w'. system_health_check e no_key w = (Inr r, w') \<and>
           data_sources r = [(''yfinance'', ys), (''fred'', ''NO API KEY '' @ warning_sign)] \<and>
           overall_status r =
             (if sublist ''HEALTHY'' ys then ''DEGRADED '' @ warning_sign
              else ''CRITICAL '' @ cross_mark)"
proof -
  have f: "test_fred e no_key w2 = (Inr (''NO API KEY '' @ warning_sign), w2)"
    by (simp add: test_fred_status no_key_def)
  obtain rs w4 where rf: "test_risk_free_rate e no_key w2 = (Inr rs, w4)"
    by (simp add: test_risk_free_rate_status)
  obtain ms w5 where m: "test_market_data e w4 = (Inr ms, w5)"
    by (simp add: test_market_data_status)
  from test_sample_data_status [of e w5] obtain ss w6 where sa: "test_sample_data e w5 = (Inr ss, w6)"
    by blast
  from health_check_composed [OF y f rf m sa] obtain r w' where
    r: "system_health_check e no_key w = (Inr r, w')"
    and ds: "data_sources r = [(''yfinance'', ys), (''fred'', ''NO API KEY '' @ warning_sign)]"
    and ov: "overall_status r = determine_overall_status
               [(''yfinance'', ys), (''fred'', ''NO API KEY '' @ warning_sign)]"
    by blast
  have "overall_status r =
          (if sublist ''HEALTHY'' ys then ''DEGRADED '' @ warning_sign
           else ''CRITICAL '' @ cross_mark)"
    unfolding ov determine_overall_status_two using no_key_status_lacks by simp
  with r ds show ?thesis by blast
qed

text \<open>
  The claim that a missing credential does not stand in the way of \<open>HEALTHY\<close> fails:
  with Yahoo Finance answering every download and no credential configured, the yfinance
  probe succeeded and the overall status is \<open>DEGRADED\<close>. And the statuses are counted by
  their text, not by the success of the probes: with Yahoo Finance down, its error
  message being \<open>UNHEALTHY upstream\<close>, and no credential configured, no probed source
  succeeded and the overall status is \<open>DEGRADED\<close>, not \<open>CRITICAL\<close>.
\<close>

theorem health_check_no_key_counterexample:
  "\<not> isl (fst (system_health_check (test_env (yf_up (price_table (replicate 20 100))) fred_down)
                 no_key world0)) \<and>
   yfinance_succeeded (test_env (yf_up (price_table (replicate 20 100))) fred_down)
     (snd (datetime_now (test_env (yf_up (price_table (replicate 20 100))) fred_down)
        (print (hospital @ '' Running system health check...'') world0))) \<and>
   data_sources (projr (fst (system_health_check
       (test_env (yf_up (price_table (replicate 20 100))) fred_down) no_key world0))) =
     [(''yfinance'', ''HEALTHY '' @ check_mark), (''fred'', ''NO API KEY '' @ warning_sign)] \<and>
   overall_status (projr (fst (system_health_check
       (test_env (yf_up (price_table (replicate 20 100))) fred_down) no_key world0))) =
     ''DEGRADED '' @ warning_sign \<and>
   \<not> isl (fst (system_health_check (test_env yf_unhealthy fred_down) no_key world0)) \<and>
   \<not> yfinance_succeeded (test_env yf_unhealthy fred_down)
     (snd (datetime_now (test_env yf_unhealthy fred_down)
        (print (hospital @ '' Running system health check...'') world0))) \<and>
   \<not> fred_succeeded (test_env yf_unhealthy fred_down) no_key
     (snd (yf_download_call (test_env yf_unhealthy fred_down) ''AAPL'' (Period ''5d'')
        (snd (datetime_now (test_env yf_unhealthy fred_down)
           (print (hospital @ '' Running system health check...'') world0))))) \<and>
   data_sources (projr (fst (system_health_check (test_env yf_unhealthy fred_down) no_key world0))) =
     [(''yfinance'', ''ERROR: UNHEALTHY upstream '' @ cross_mark),
      (''fred'', ''NO API KEY '' @ warning_sign)] \<and>
   overall_status (projr (fst (system_health_check (test_env yf_unhealthy fred_down) no_key world0))) =
     ''DEGRADED '' @ warning_sign"
proof -
  let ?T = "price_table (replicate 20 100)"
  let ?e = "test_env (yf_up ?T) fred_down"
  let ?w1 = "snd (datetime_now ?e (print (hospital @ '' Running system health check...'') world0))"
  let ?u = "test_env yf_unhealthy fred_down"
  let ?v1 = "snd (datetime_now ?u (print (hospital @ '' Running system health check...'') world0))"
  have y: "test_yfinance ?e ?w1 =
        (Inr (''HEALTHY '' @ check_mark), snd (yf_download_call ?e ''AAPL'' (Period ''5d'') ?w1))"
    by (simp add: test_yfinance_status yf_download_call_def yf_up_def healthy_status_def)
  have ok: "yfinance_succeeded ?e ?w1"
    by (simp add: yfinance_succeeded_def yf_download_call_def yf_up_def)
  have z: "test_yfinance ?u ?v1 =
        (Inr (''ERROR: UNHEALTHY upstream '' @ cross_mark),
         snd (yf_download_call ?u ''AAPL'' (Period ''5d'') ?v1))"
    by (simp add: test_yfinance_status yf_download_call_def yf_unhealthy_def error_status_def)
  have ko: "\<not> yfinance_succeeded ?u ?v1"
    "\<not> fred_succeeded ?u no_key (snd (yf_download_call ?u ''AAPL'' (Period ''5d'') ?v1))"
    by (simp_all add: yfinance_succeeded_def yf_download_call_def yf_unhealthy_def
          fred_succeeded_def no_key_def)
  have h: "sublist ''HEALTHY'' (''HEALTHY '' @ check_mark)"
    "sublist ''HEALTHY'' (''ERROR: UNHEALTHY upstream '' @ cross_mark)"
    by (simp_all add: sublist_Cons_right)
  from health_check_no_key_run [OF y] h(1) obtain r w' where
    r: "system_health_check ?e no_key world0 = (Inr r, w')"
       "data_sources r = [(''yfinance'', ''HEALTHY '' @ check_mark),
                          (''fred'', ''NO API KEY '' @ warning_sign)]"
       "overall_status r = ''DEGRADED '' @ warning_sign"
    by auto
  from health_check_no_key_run [OF z] h(2) obtain r2 w2' where
    r2: "system_health_check ?u no_key world0 = (Inr r2, w2')"
       "data_sources r2 = [(''yfinance'', ''ERROR: UNHEALTHY upstream '' @ cross_mark),
                           (''fred'', ''NO API KEY '' @ warning_sign)]"
       "overall_status r2 = ''DEGRADED '' @ warning_sign"
    by auto
  from r r2 ok ko show ?thesis by simp
qed

end
